theory Spec2Isabelle
  imports Main
begin

section \<open>JavaScript values\<close>

text \<open>
  The relay (\<^verbatim>\<open>src/server.js\<close> and its sibling \<^verbatim>\<open>src/unnamed/part_000\<close>) only moves
  JSON values around: it reads properties, tests truthiness and interpolates values into
  template strings. A number is therefore kept as its ECMAScript \<^verbatim>\<open>ToString\<close> rendering
  (\<^verbatim>\<open>"5"\<close>, \<^verbatim>\<open>"1.5"\<close>, \<^verbatim>\<open>"1e+21"\<close>): the program never computes with one. An object is
  an association list; the first binding of a key is the one that is read.
\<close>

datatype json =
    JUndefined
  | JNull
  | JBool bool
  | JNum string
  | JStr string
  | JArr "json list"
  | JObj "(string \<times> json) list"

text \<open>A thrown exception as the \<^verbatim>\<open>catch\<close> blocks see it: \<^verbatim>\<open>error.message\<close> and
  \<^verbatim>\<open>error.response\<close> (status and data; absent for a \<^verbatim>\<open>TypeError\<close> and for an axios
  error without a response).\<close>

datatype js_error = JsError (err_message: string) (err_response: "(nat \<times> json) option")

text \<open>\<^verbatim>\<open>!v\<close> is \<open>\<not> truthy v\<close>. The falsy numbers are \<^verbatim>\<open>0\<close>, \<^verbatim>\<open>-0\<close> (both rendered
  \<^verbatim>\<open>"0"\<close>) and \<^verbatim>\<open>NaN\<close>.\<close>

fun truthy :: "json \<Rightarrow> bool" where
  "truthy JUndefined = False"
| "truthy JNull = False"
| "truthy (JBool b) = b"
| "truthy (JNum s) = (s \<noteq> ''0'' \<and> s \<noteq> ''NaN'')"
| "truthy (JStr s) = (s \<noteq> [])"
| "truthy (JArr xs) = True"
| "truthy (JObj kvs) = True"

text \<open>\<^verbatim>\<open>a || b\<close>\<close>

definition js_or :: "json \<Rightarrow> json \<Rightarrow> json" where
  "js_or a b = (if truthy a then a else b)"

text \<open>\<^verbatim>\<open>v.k\<close>: a \<^verbatim>\<open>TypeError\<close> on \<^verbatim>\<open>null\<close> and \<^verbatim>\<open>undefined\<close>, the bound value on an
  object, \<^verbatim>\<open>undefined\<close> otherwise (none of the property names the program reads is a
  property of a string, number, boolean or array prototype).\<close>

fun get_prop :: "json \<Rightarrow> string \<Rightarrow> js_error + json" where
  "get_prop JUndefined k =
     Inl (JsError (''Cannot read properties of undefined (reading '' @ [CHR 0x27] @ k @ [CHR 0x27] @ '')'') None)"
| "get_prop JNull k =
     Inl (JsError (''Cannot read properties of null (reading '' @ [CHR 0x27] @ k @ [CHR 0x27] @ '')'') None)"
| "get_prop (JObj kvs) k = Inr (case map_of kvs k of None \<Rightarrow> JUndefined | Some v \<Rightarrow> v)"
| "get_prop v k = Inr JUndefined"

text \<open>\<^verbatim>\<open>v?.k\<close>\<close>

fun opt_prop :: "json \<Rightarrow> string \<Rightarrow> json" where
  "opt_prop (JObj kvs) k = (case map_of kvs k of None \<Rightarrow> JUndefined | Some v \<Rightarrow> v)"
| "opt_prop v k = JUndefined"

text \<open>Sequencing inside a \<^verbatim>\<open>try\<close> block: the first exception ends it.\<close>

definition and_then :: "'e + 'a \<Rightarrow> ('a \<Rightarrow> 'e + 'b) \<Rightarrow> 'e + 'b" where
  "and_then r f = (case r of Inl e \<Rightarrow> Inl e | Inr v \<Rightarrow> f v)"

fun join_comma :: "string list \<Rightarrow> string" where
  "join_comma [] = []"
| "join_comma [s] = s"
| "join_comma (s # t # ss) = s @ '','' @ join_comma (t # ss)"

text \<open>\<^verbatim>\<open>`${v}`\<close>: \<^verbatim>\<open>ToString\<close>. An array joins its elements with commas, \<^verbatim>\<open>null\<close> and
  \<^verbatim>\<open>undefined\<close> elements rendered empty.\<close>

fun js_to_string :: "json \<Rightarrow> string" where
  "js_to_string JUndefined = ''undefined''"
| "js_to_string JNull = ''null''"
| "js_to_string (JBool b) = (if b then ''true'' else ''false'')"
| "js_to_string (JNum s) = s"
| "js_to_string (JStr s) = s"
| "js_to_string (JObj kvs) = ''[object Object]''"
| "js_to_string (JArr xs) =
     join_comma (map (\<lambda>x. if x = JUndefined \<or> x = JNull then [] else js_to_string x) xs)"

text \<open>\<^verbatim>\<open>s.startsWith(p)\<close>\<close>

definition startsWith :: "string \<Rightarrow> string \<Rightarrow> bool" where
  "startsWith s p = (take (length p) s = p)"

text \<open>\<^verbatim>\<open>s.split(c)\<close> for a one-character separator: the pieces between the separators,
  empty pieces kept, so the result is never empty.\<close>

fun js_split :: "char \<Rightarrow> string \<Rightarrow> string list" where
  "js_split c [] = [[]]"
| "js_split c (x # xs) =
     (if x = c then [] # js_split c xs
      else (case js_split c xs of w # ws \<Rightarrow> (x # w) # ws | [] \<Rightarrow> [[x]]))"

text \<open>\<^verbatim>\<open>xs[i]\<close>: \<^verbatim>\<open>undefined\<close> out of range.\<close>

definition js_index :: "string list \<Rightarrow> nat \<Rightarrow> json" where
  "js_index xs i = (if i < length xs then JStr (xs ! i) else JUndefined)"

fun show_nat :: "nat \<Rightarrow> string" where
  "show_nat n =
     (if n < 10 then [char_of (48 + n)] else show_nat (n div 10) @ [char_of (48 + n mod 10)])"

text \<open>\<^verbatim>\<open>process.env[k]\<close>: a string or \<^verbatim>\<open>undefined\<close>.\<close>

definition env_get :: "(string \<rightharpoonup> string) \<Rightarrow> string \<Rightarrow> json" where
  "env_get e k = (case e k of None \<Rightarrow> JUndefined | Some s \<Rightarrow> JStr s)"

text \<open>A number that is not finite, by its rendering. \<^verbatim>\<open>JSON.parse\<close> yields one for a
  literal too large for a double (\<^verbatim>\<open>1e400\<close>).\<close>

definition non_finite :: "string \<Rightarrow> bool" where
  "non_finite s = (s = ''Infinity'' \<or> s = ''-Infinity'' \<or> s = ''NaN'')"

text \<open>A value as it arrives after \<^verbatim>\<open>JSON.stringify\<close> and a JSON parser: a non-finite number
  becomes \<^verbatim>\<open>null\<close>, an object loses the fields whose value is \<^verbatim>\<open>undefined\<close>, and an
  \<^verbatim>\<open>undefined\<close> array element becomes \<^verbatim>\<open>null\<close>.\<close>

fun to_wire :: "json \<Rightarrow> json" where
  "to_wire JUndefined = JUndefined"
| "to_wire JNull = JNull"
| "to_wire (JBool b) = JBool b"
| "to_wire (JNum s) = (if non_finite s then JNull else JNum s)"
| "to_wire (JStr s) = JStr s"
| "to_wire (JArr xs) = JArr (map (\<lambda>x. if x = JUndefined then JNull else to_wire x) xs)"
| "to_wire (JObj kvs) =
     JObj (map (\<lambda>kv. (fst kv, to_wire (snd kv))) (filter (\<lambda>kv. snd kv \<noteq> JUndefined) kvs))"

text \<open>A value that serialisation leaves as it is: no \<^verbatim>\<open>undefined\<close> and no non-finite
  number anywhere in it.\<close>

fun json_text :: "json \<Rightarrow> bool" where
  "json_text JUndefined = False"
| "json_text JNull = True"
| "json_text (JBool b) = True"
| "json_text (JNum s) = (\<not> non_finite s)"
| "json_text (JStr s) = True"
| "json_text (JArr xs) = list_all json_text xs"
| "json_text (JObj kvs) = list_all (\<lambda>kv. json_text (snd kv)) kvs"

declare show_nat.simps [simp del]

section \<open>The upstream API, requests and responses\<close>

text \<open>
  One outbound HTTP call as axios sends it. The upstream API answers a call from the
  calls made before it and the call itself: either no response at all (a network
  error, with its message) or a status and a body, as axios reports it once it has
  followed redirects and parsed the body. The list of calls made so far is the only state
  the relay's handlers thread.
\<close>

record upstream_call =
  call_verb :: string
  call_url :: string
  call_headers :: "(string \<times> string) list"
  call_data :: json

datatype upstream_result = NoResponse string | Response nat json

type_synonym upstream_api = "upstream_call list \<Rightarrow> upstream_call \<Rightarrow> upstream_result"

text \<open>What a handler reads from its surroundings: \<^verbatim>\<open>process.env\<close>, the value of
  \<^verbatim>\<open>new Date().toISOString()\<close>, the upstream API, and \<^verbatim>\<open>piConfig.mainnet.apiUrl\<close> of
  \<^verbatim>\<open>./config/pi-config\<close> as a template string renders it (required by \<^verbatim>\<open>part_000\<close>; the
  file is not part of the sources, so its value is a parameter).\<close>

record runtime =
  process_env :: "string \<rightharpoonup> string"
  now_iso :: string
  upstream :: upstream_api
  piConfig_mainnet_apiUrl :: string

text \<open>A response as the caller receives it: the status and the body, \<open>None\<close> when no
  body is sent.\<close>

record response =
  res_status :: nat
  res_body :: "json option"

text \<open>The route pattern of \<^verbatim>\<open>server.js\<close> that the request's verb (\<^verbatim>\<open>GET\<close> or \<^verbatim>\<open>POST\<close>) and
  path match; \<open>GET_api_payment p\<close> carries \<^verbatim>\<open>req.params.paymentId\<close>. \<open>No_route\<close> is a
  request that matches none of the five.\<close>

datatype endpoint =
    GET_api_balance
  | POST_api_approve
  | POST_api_complete
  | GET_api_payment string
  | GET_api_health
  | No_route

text \<open>An inbound request: the matched route, \<^verbatim>\<open>req.headers.authorization\<close>, the other
  headers (neither file reads one) and \<^verbatim>\<open>req.body\<close> as \<^verbatim>\<open>express.json()\<close> left it.\<close>

record request =
  req_endpoint :: endpoint
  req_authorization :: "string option"
  req_headers :: "(string \<times> string) list"
  req_body :: json

text \<open>\<^verbatim>\<open>req.user\<close>\<close>

record user =
  uid :: json
  username :: json
  walletAddress :: json

datatype auth_outcome = Responded response | CallNext user

text \<open>axios with its default \<^verbatim>\<open>validateStatus\<close>: the promise resolves with the body for a
  status in 200..299 and rejects otherwise, the error carrying the response when there is
  one.\<close>

definition axios_request ::
  "runtime \<Rightarrow> upstream_call \<Rightarrow> upstream_call list \<Rightarrow> (js_error + json) \<times> upstream_call list" where
  "axios_request rt c tr =
     (case upstream rt tr c of
        NoResponse m \<Rightarrow> (Inl (JsError m None), tr @ [c])
      | Response s d \<Rightarrow>
          if 200 \<le> s \<and> s < 300 then (Inr d, tr @ [c])
          else (Inl (JsError (''Request failed with status code '' @ show_nat s) (Some (s, d))),
                tr @ [c]))"

definition axios_get ::
  "runtime \<Rightarrow> string \<Rightarrow> (string \<times> string) list \<Rightarrow> upstream_call list
     \<Rightarrow> (js_error + json) \<times> upstream_call list" where
  "axios_get rt url headers =
     axios_request rt \<lparr>call_verb = ''GET'', call_url = url, call_headers = headers,
                       call_data = JUndefined\<rparr>"

definition axios_post ::
  "runtime \<Rightarrow> string \<Rightarrow> json \<Rightarrow> (string \<times> string) list \<Rightarrow> upstream_call list
     \<Rightarrow> (js_error + json) \<times> upstream_call list" where
  "axios_post rt url d headers =
     axios_request rt \<lparr>call_verb = ''POST'', call_url = url, call_headers = headers,
                       call_data = d\<rparr>"

text \<open>The statuses for which Express's \<^verbatim>\<open>res.send\<close> sends no body. (Node sends none
  with an informational status 100..199 either; its HTTP client never reports one as the
  status of a response, so no \<^verbatim>\<open>catch\<close> block passes one through.)\<close>

definition no_body_status :: "nat \<Rightarrow> bool" where
  "no_body_status s = (s = 204 \<or> s = 205 \<or> s = 304)"

text \<open>\<^verbatim>\<open>res.json(b)\<close> answers 200 and \<^verbatim>\<open>res.status(s).json(b)\<close> answers \<open>s\<close>, with \<open>b\<close>
  serialised by \<^verbatim>\<open>JSON.stringify\<close>; at a status of \<open>no_body_status\<close> the body is dropped.\<close>

definition res_json :: "json \<Rightarrow> response" where
  "res_json b = \<lparr>res_status = 200, res_body = Some (to_wire b)\<rparr>"

definition res_status_json :: "nat \<Rightarrow> json \<Rightarrow> response" where
  "res_status_json s b =
     \<lparr>res_status = s, res_body = (if no_body_status s then None else Some (to_wire b))\<rparr>"

text \<open>\<^verbatim>\<open>error.response?.status || 500\<close>\<close>

definition error_status :: "js_error \<Rightarrow> nat" where
  "error_status error =
     (case err_response error of None \<Rightarrow> 500 | Some (s, d) \<Rightarrow> if s = 0 then 500 else s)"

text \<open>\<^verbatim>\<open>error.response?.data?.message || fallback\<close>\<close>

definition error_text :: "js_error \<Rightarrow> string \<Rightarrow> json" where
  "error_text error fallback =
     js_or (case err_response error of None \<Rightarrow> JUndefined | Some (s, d) \<Rightarrow> opt_prop d ''message'')
           (JStr fallback)"

definition bearer_headers :: "json \<Rightarrow> (string \<times> string) list" where
  "bearer_headers token =
     [(''Authorization'', ''Bearer '' @ js_to_string token),
      (''Content-Type'', ''application/json'')]"

definition key_headers :: "runtime \<Rightarrow> (string \<times> string) list" where
  "key_headers rt =
     [(''Authorization'', ''Key '' @ js_to_string (env_get (process_env rt) ''PI_API_KEY'')),
      (''Content-Type'', ''application/json'')]"

definition make_user :: "json \<Rightarrow> js_error + user" where
  "make_user d =
     and_then (get_prop d ''uid'') (\<lambda>u.
     and_then (get_prop d ''username'') (\<lambda>n.
     and_then (get_prop d ''wallet_address'') (\<lambda>w.
       Inr \<lparr>uid = u, username = n, walletAddress = w\<rparr>)))"

section \<open>\<^verbatim>\<open>src/server.js\<close>\<close>

text \<open>The model covers the module's startup checks, the authentication middleware, the
  route handlers, the error-handling middleware and the 404 handler. The library
  middleware mounted before the routes (helmet, cors, \<^verbatim>\<open>express.json\<close>, morgan and the rate
  limiter) is not modelled: a request is taken as it reaches the routes.\<close>

subsection \<open>Startup\<close>

text \<open>What the module meets when Node loads it: \<^verbatim>\<open>process.env\<close> (after \<^verbatim>\<open>dotenv\<close>), the
  outcome of \<^verbatim>\<open>app.listen(port)\<close> and the outcome of \<^verbatim>\<open>require('./config/pi-config')\<close>.
  Node's \<^verbatim>\<open>net\<close> module and the configuration file are not part of the sources, so both
  outcomes are parameters: \<open>host_listen h port\<close> is \<open>None\<close> when the server ends up
  listening and \<open>Some msg\<close> when the call throws (a port out of range) or the server
  emits an error (a port in use); \<open>host_pi_config h\<close> is \<open>Inl msg\<close> when the \<^verbatim>\<open>require\<close>
  throws and \<open>Inr\<close> the module's exports otherwise.\<close>

record host =
  host_env :: "string \<rightharpoonup> string"
  host_listen :: "json \<Rightarrow> string option"
  host_pi_config :: "string + json"

definition requiredEnvVars :: "string list" where
  "requiredEnvVars = [''PI_API_KEY'', ''FRONTEND_URL'']"

text \<open>The \<^verbatim>\<open>forEach\<close> over \<^verbatim>\<open>requiredEnvVars\<close>: the first variable that is unset or empty
  throws.\<close>

fun check_required :: "(string \<rightharpoonup> string) \<Rightarrow> string list \<Rightarrow> string option" where
  "check_required e [] = None"
| "check_required e (varName # rest) =
     (if \<not> truthy (env_get e varName) then Some (varName @ '' missing in .env'')
      else check_required e rest)"

definition PI_API_URL :: "(string \<rightharpoonup> string) \<Rightarrow> string" where
  "PI_API_URL e =
     (if env_get e ''NODE_ENV'' = JStr ''production'' then ''https://api.minepi.com/v2''
      else ''https://api.testnet.minepi.com/v2'')"

text \<open>Running the module top to bottom. \<open>Inl\<close> is the message of what stopped it: the
  \<^verbatim>\<open>Error\<close> thrown by the validation, or the failure of \<^verbatim>\<open>app.listen\<close>. \<open>Inr\<close> is the
  argument of the \<^verbatim>\<open>app.listen\<close> call that left the server listening
  (\<^verbatim>\<open>process.env.PORT\<close>, which is \<^verbatim>\<open>undefined\<close> when the variable is not set).\<close>

definition startup :: "host \<Rightarrow> string + json" where
  "startup h =
     (case check_required (host_env h) requiredEnvVars of
        Some msg \<Rightarrow> Inl msg
      | None \<Rightarrow>
          let PORT = env_get (host_env h) ''PORT'' in
          (case host_listen h PORT of Some msg \<Rightarrow> Inl msg | None \<Rightarrow> Inr PORT))"

subsection \<open>Authentication middleware\<close>

definition auth_catch :: "runtime \<Rightarrow> js_error \<Rightarrow> response" where
  "auth_catch rt error =
     res_status_json (error_status error)
       (JObj ((''error'', JStr ''Authentication failed'') #
              (if env_get (process_env rt) ''NODE_ENV'' = JStr ''development''
               then [(''details'', JStr (err_message error))] else [])))"

definition authenticatePiRequest ::
  "runtime \<Rightarrow> request \<Rightarrow> upstream_call list \<Rightarrow> auth_outcome \<times> upstream_call list" where
  "authenticatePiRequest rt req tr =
     (case req_authorization req of
        None \<Rightarrow>
          (Responded (res_status_json 401 (JObj [(''error'', JStr ''Authorization header required'')])), tr)
      | Some authHeader \<Rightarrow>
          if \<not> startsWith authHeader ''Bearer '' then
            (Responded (res_status_json 401 (JObj [(''error'', JStr ''Authorization header required'')])), tr)
          else
            let accessToken = js_index (js_split CHR '' '' authHeader) 1 in
            (case axios_get rt (PI_API_URL (process_env rt) @ ''/me'') (bearer_headers accessToken) tr of
               (Inl error, tr') \<Rightarrow> (Responded (auth_catch rt error), tr')
             | (Inr d, tr') \<Rightarrow>
                 (case get_prop d ''uid'' of
                    Inl error \<Rightarrow> (Responded (auth_catch rt error), tr')
                  | Inr u \<Rightarrow>
                      if \<not> truthy u then
                        (Responded (res_status_json 401 (JObj [(''error'', JStr ''Invalid authentication token'')])), tr')
                      else
                        (case make_user d of
                           Inl error \<Rightarrow> (Responded (auth_catch rt error), tr')
                         | Inr usr \<Rightarrow> (CallNext usr, tr')))))"

subsection \<open>Route handlers\<close>

text \<open>Each handler runs after the middleware called \<^verbatim>\<open>next()\<close>, with \<^verbatim>\<open>req.user\<close> set.
  The object literal handed to \<^verbatim>\<open>res.json\<close> is built inside the \<^verbatim>\<open>try\<close> block, so a
  \<^verbatim>\<open>TypeError\<close> while reading \<^verbatim>\<open>response.data\<close> or destructuring \<^verbatim>\<open>req.body\<close> lands in
  the handler's \<^verbatim>\<open>catch\<close>. What a handler writes with \<^verbatim>\<open>console.error\<close> is left out: no
  response depends on it, and the message of an exception raised in a handler goes
  nowhere else.\<close>

definition balance_body :: "runtime \<Rightarrow> json \<Rightarrow> js_error + json" where
  "balance_body rt d =
     and_then (get_prop d ''available_balance'') (\<lambda>a.
     and_then (get_prop d ''locked_balance'') (\<lambda>l.
       Inr (JObj [(''available'', a), (''locked'', l), (''currency'', JStr ''PI''),
                  (''last_updated'', JStr (now_iso rt))])))"

definition get_api_balance ::
  "runtime \<Rightarrow> request \<Rightarrow> user \<Rightarrow> upstream_call list \<Rightarrow> response \<times> upstream_call list" where
  "get_api_balance rt req usr tr =
     (case axios_get rt
             (PI_API_URL (process_env rt) @ ''/accounts/'' @ js_to_string (uid usr) @ ''/balance'')
             (key_headers rt) tr of
        (Inl error, tr') \<Rightarrow>
          (res_status_json 500 (JObj [(''error'', JStr ''Failed to fetch balance'')]), tr')
      | (Inr d, tr') \<Rightarrow>
          (case balance_body rt d of
             Inl error \<Rightarrow> (res_status_json 500 (JObj [(''error'', JStr ''Failed to fetch balance'')]), tr')
           | Inr b \<Rightarrow> (res_json b, tr')))"

definition approve_body :: "json \<Rightarrow> json \<Rightarrow> js_error + json" where
  "approve_body d paymentId =
     and_then (get_prop d ''status'') (\<lambda>st.
     and_then (get_prop d ''amount'') (\<lambda>am.
     and_then (get_prop d ''memo'') (\<lambda>me.
       Inr (JObj [(''status'', st), (''payment_id'', paymentId), (''amount'', am),
                  (''memo'', me)]))))"

definition post_api_approve ::
  "runtime \<Rightarrow> request \<Rightarrow> user \<Rightarrow> upstream_call list \<Rightarrow> response \<times> upstream_call list" where
  "post_api_approve rt req usr tr =
     (case get_prop (req_body req) ''paymentId'' of
        Inl error \<Rightarrow> (res_status_json 500 (JObj [(''error'', JStr ''Payment approval failed'')]), tr)
      | Inr paymentId \<Rightarrow>
          if \<not> truthy paymentId then
            (res_status_json 400 (JObj [(''error'', JStr ''Missing payment ID'')]), tr)
          else
            (case axios_post rt
                    (PI_API_URL (process_env rt) @ ''/payments/'' @ js_to_string paymentId @ ''/approve'')
                    (JObj []) (key_headers rt) tr of
               (Inl error, tr') \<Rightarrow>
                 (res_status_json 500 (JObj [(''error'', JStr ''Payment approval failed'')]), tr')
             | (Inr d, tr') \<Rightarrow>
                 (case approve_body d paymentId of
                    Inl error \<Rightarrow>
                      (res_status_json 500 (JObj [(''error'', JStr ''Payment approval failed'')]), tr')
                  | Inr b \<Rightarrow> (res_json b, tr'))))"

definition complete_body :: "runtime \<Rightarrow> json \<Rightarrow> json \<Rightarrow> json \<Rightarrow> js_error + json" where
  "complete_body rt d paymentId txid =
     and_then (get_prop d ''status'') (\<lambda>st.
     and_then (get_prop d ''transaction'') (\<lambda>t.
       Inr (JObj [(''status'', st), (''payment_id'', paymentId), (''txid'', txid),
                  (''verified'', opt_prop t ''verified''),
                  (''completed_at'', JStr (now_iso rt))])))"

definition post_api_complete ::
  "runtime \<Rightarrow> request \<Rightarrow> user \<Rightarrow> upstream_call list \<Rightarrow> response \<times> upstream_call list" where
  "post_api_complete rt req usr tr =
     (case and_then (get_prop (req_body req) ''paymentId'') (\<lambda>paymentId.
           and_then (get_prop (req_body req) ''txid'') (\<lambda>txid. Inr (paymentId, txid))) of
        Inl error \<Rightarrow> (res_status_json 500 (JObj [(''error'', JStr ''Payment completion failed'')]), tr)
      | Inr (paymentId, txid) \<Rightarrow>
          if \<not> truthy paymentId \<or> \<not> truthy txid then
            (res_status_json 400 (JObj [(''error'', JStr ''Missing payment ID or transaction ID'')]), tr)
          else
            (case axios_post rt
                    (PI_API_URL (process_env rt) @ ''/payments/'' @ js_to_string paymentId @ ''/complete'')
                    (JObj [(''txid'', txid)]) (key_headers rt) tr of
               (Inl error, tr') \<Rightarrow>
                 (res_status_json 500 (JObj [(''error'', JStr ''Payment completion failed'')]), tr')
             | (Inr d, tr') \<Rightarrow>
                 (case complete_body rt d paymentId txid of
                    Inl error \<Rightarrow>
                      (res_status_json 500 (JObj [(''error'', JStr ''Payment completion failed'')]), tr')
                  | Inr b \<Rightarrow> (res_json b, tr'))))"

definition payment_body :: "json \<Rightarrow> js_error + json" where
  "payment_body d =
     and_then (get_prop d ''identifier'') (\<lambda>i.
     and_then (get_prop d ''amount'') (\<lambda>am.
     and_then (get_prop d ''status'') (\<lambda>st.
     and_then (get_prop d ''created_at'') (\<lambda>c.
     and_then (get_prop d ''transaction'') (\<lambda>t.
       Inr (JObj [(''id'', i), (''amount'', am), (''status'', st), (''created_at'', c),
                  (''txid'', opt_prop t ''txid''),
                  (''verified'', opt_prop t ''verified'')]))))))"

definition get_api_payment ::
  "runtime \<Rightarrow> string \<Rightarrow> request \<Rightarrow> user \<Rightarrow> upstream_call list
     \<Rightarrow> response \<times> upstream_call list" where
  "get_api_payment rt paymentId req usr tr =
     (case axios_get rt (PI_API_URL (process_env rt) @ ''/payments/'' @ paymentId)
             (key_headers rt) tr of
        (Inl error, tr') \<Rightarrow>
          (res_status_json 500 (JObj [(''error'', JStr ''Failed to fetch payment details'')]), tr')
      | (Inr d, tr') \<Rightarrow>
          (case payment_body d of
             Inl error \<Rightarrow>
               (res_status_json 500 (JObj [(''error'', JStr ''Failed to fetch payment details'')]), tr')
           | Inr b \<Rightarrow> (res_json b, tr')))"

definition get_api_health :: "runtime \<Rightarrow> response" where
  "get_api_health rt =
     res_json (JObj [(''status'', JStr ''operational''), (''version'', JStr ''1.0.0''),
                     (''environment'',
                        js_or (env_get (process_env rt) ''NODE_ENV'') (JStr ''development'')),
                     (''timestamp'', JStr (now_iso rt))])"

text \<open>The error-handling middleware, for an error \<open>err\<close> passed on by an earlier
  middleware.\<close>

definition error_middleware :: "runtime \<Rightarrow> js_error \<Rightarrow> response" where
  "error_middleware rt err = res_status_json 500 (JObj [(''error'', JStr ''Internal server error'')])"

definition not_found :: response where
  "not_found = res_status_json 404 (JObj [(''error'', JStr ''Endpoint not found'')])"

text \<open>A route registered as \<^verbatim>\<open>app.get(path, authenticatePiRequest, handler)\<close>: the handler
  runs only when the middleware called \<^verbatim>\<open>next()\<close>.\<close>

definition protected ::
  "(runtime \<Rightarrow> request \<Rightarrow> upstream_call list \<Rightarrow> auth_outcome \<times> upstream_call list)
   \<Rightarrow> (runtime \<Rightarrow> request \<Rightarrow> user \<Rightarrow> upstream_call list \<Rightarrow> response \<times> upstream_call list)
   \<Rightarrow> runtime \<Rightarrow> request \<Rightarrow> upstream_call list \<Rightarrow> response \<times> upstream_call list" where
  "protected mw handler rt req tr =
     (case mw rt req tr of
        (Responded r, tr') \<Rightarrow> (r, tr')
      | (CallNext usr, tr') \<Rightarrow> handler rt req usr tr')"

text \<open>The routes of \<^verbatim>\<open>server.js\<close> in registration order, the 404 handler last.\<close>

definition app :: "runtime \<Rightarrow> request \<Rightarrow> upstream_call list \<Rightarrow> response \<times> upstream_call list" where
  "app rt req tr =
     (case req_endpoint req of
        GET_api_balance \<Rightarrow> protected authenticatePiRequest get_api_balance rt req tr
      | POST_api_approve \<Rightarrow> protected authenticatePiRequest post_api_approve rt req tr
      | POST_api_complete \<Rightarrow> protected authenticatePiRequest post_api_complete rt req tr
      | GET_api_payment p \<Rightarrow> protected authenticatePiRequest (\<lambda>rt. get_api_payment rt p) rt req tr
      | GET_api_health \<Rightarrow> (get_api_health rt, tr)
      | No_route \<Rightarrow> (not_found, tr))"

section \<open>\<^verbatim>\<open>src/unnamed/part_000\<close>\<close>

text \<open>The second server file. Its definitions carry the suffix \<open>_p0\<close>. It reads the
  upstream base URL from \<^verbatim>\<open>piConfig.mainnet.apiUrl\<close>, passes upstream statuses and messages
  through in every \<^verbatim>\<open>catch\<close>, and registers no payment-details route.\<close>

text \<open>Startup of this file: the \<^verbatim>\<open>require\<close> of \<^verbatim>\<open>./config/pi-config\<close>, the two checks,
  \<^verbatim>\<open>PORT\<close>, the read of \<^verbatim>\<open>piConfig.mainnet.apiUrl\<close> (a \<^verbatim>\<open>TypeError\<close> when the exports have
  no \<^verbatim>\<open>mainnet\<close>) and \<^verbatim>\<open>app.listen(PORT)\<close>.\<close>

definition startup_p0 :: "host \<Rightarrow> string + json" where
  "startup_p0 h =
     (case host_pi_config h of
        Inl msg \<Rightarrow> Inl msg
      | Inr piConfig \<Rightarrow>
          if \<not> truthy (env_get (host_env h) ''PI_API_KEY'') then Inl ''PI_API_KEY missing in .env''
          else if \<not> truthy (env_get (host_env h) ''FRONTEND_URL'')
          then Inl ''FRONTEND_URL missing in .env''
          else
            let PORT = js_or (env_get (host_env h) ''PORT'') (JNum ''443'') in
            (case and_then (get_prop piConfig ''mainnet'') (\<lambda>m. get_prop m ''apiUrl'') of
               Inl error \<Rightarrow> Inl (err_message error)
             | Inr apiUrl \<Rightarrow>
                 (case host_listen h PORT of Some msg \<Rightarrow> Inl msg | None \<Rightarrow> Inr PORT)))"

text \<open>The shape shared by the four \<^verbatim>\<open>catch\<close> blocks of this file.\<close>

definition catch_p0 :: "js_error \<Rightarrow> string \<Rightarrow> response" where
  "catch_p0 error fallback =
     res_status_json (error_status error) (JObj [(''error'', error_text error fallback)])"

definition authenticatePiRequest_p0 ::
  "runtime \<Rightarrow> request \<Rightarrow> upstream_call list \<Rightarrow> auth_outcome \<times> upstream_call list" where
  "authenticatePiRequest_p0 rt req tr =
     (case req_authorization req of
        None \<Rightarrow>
          (Responded (res_status_json 401 (JObj [(''error'', JStr ''Authorization header required'')])), tr)
      | Some authHeader \<Rightarrow>
          if \<not> startsWith authHeader ''Bearer '' then
            (Responded (res_status_json 401 (JObj [(''error'', JStr ''Authorization header required'')])), tr)
          else
            let token = js_index (js_split CHR '' '' authHeader) 1 in
            (case axios_get rt (piConfig_mainnet_apiUrl rt @ ''/me'') (bearer_headers token) tr of
               (Inl error, tr') \<Rightarrow> (Responded (catch_p0 error ''Authentication failed''), tr')
             | (Inr d, tr') \<Rightarrow>
                 (case get_prop d ''uid'' of
                    Inl error \<Rightarrow> (Responded (catch_p0 error ''Authentication failed''), tr')
                  | Inr u \<Rightarrow>
                      if \<not> truthy u then
                        (Responded (res_status_json 401 (JObj [(''error'', JStr ''Invalid authentication token'')])), tr')
                      else
                        (case make_user d of
                           Inl error \<Rightarrow> (Responded (catch_p0 error ''Authentication failed''), tr')
                         | Inr usr \<Rightarrow> (CallNext usr, tr')))))"

definition balance_body_p0 :: "runtime \<Rightarrow> json \<Rightarrow> js_error + json" where
  "balance_body_p0 rt d =
     and_then (get_prop d ''available_balance'') (\<lambda>a.
     and_then (get_prop d ''locked_balance'') (\<lambda>l.
       Inr (JObj [(''available_balance'', a), (''locked_balance'', l), (''currency'', JStr ''PI''),
                  (''last_updated'', JStr (now_iso rt))])))"

definition get_api_balance_p0 ::
  "runtime \<Rightarrow> request \<Rightarrow> user \<Rightarrow> upstream_call list \<Rightarrow> response \<times> upstream_call list" where
  "get_api_balance_p0 rt req usr tr =
     (case axios_get rt
             (piConfig_mainnet_apiUrl rt @ ''/accounts/'' @ js_to_string (uid usr) @ ''/balance'')
             (key_headers rt) tr of
        (Inl error, tr') \<Rightarrow> (catch_p0 error ''Failed to fetch balance'', tr')
      | (Inr d, tr') \<Rightarrow>
          (case balance_body_p0 rt d of
             Inl error \<Rightarrow> (catch_p0 error ''Failed to fetch balance'', tr')
           | Inr b \<Rightarrow> (res_json b, tr')))"

text \<open>\<^verbatim>\<open>typeof v !== 'string'\<close>\<close>

fun is_string :: "json \<Rightarrow> bool" where
  "is_string (JStr s) = True"
| "is_string v = False"

definition approve_body_p0 :: "runtime \<Rightarrow> json \<Rightarrow> json \<Rightarrow> js_error + json" where
  "approve_body_p0 rt d paymentId =
     and_then (get_prop d ''status'') (\<lambda>st.
       Inr (JObj [(''status'', st), (''payment_id'', paymentId),
                  (''timestamp'', JStr (now_iso rt))]))"

definition post_api_approve_p0 ::
  "runtime \<Rightarrow> request \<Rightarrow> user \<Rightarrow> upstream_call list \<Rightarrow> response \<times> upstream_call list" where
  "post_api_approve_p0 rt req usr tr =
     (case get_prop (req_body req) ''paymentId'' of
        Inl error \<Rightarrow> (catch_p0 error ''Payment approval failed'', tr)
      | Inr paymentId \<Rightarrow>
          if \<not> truthy paymentId \<or> \<not> is_string paymentId then
            (res_status_json 400 (JObj [(''error'', JStr ''Invalid payment ID'')]), tr)
          else
            (case axios_post rt
                    (piConfig_mainnet_apiUrl rt @ ''/payments/'' @ js_to_string paymentId @ ''/approve'')
                    (JObj []) (key_headers rt) tr of
               (Inl error, tr') \<Rightarrow> (catch_p0 error ''Payment approval failed'', tr')
             | (Inr d, tr') \<Rightarrow>
                 (case approve_body_p0 rt d paymentId of
                    Inl error \<Rightarrow> (catch_p0 error ''Payment approval failed'', tr')
                  | Inr b \<Rightarrow> (res_json b, tr'))))"

definition complete_body_p0 :: "runtime \<Rightarrow> json \<Rightarrow> json \<Rightarrow> json \<Rightarrow> js_error + json" where
  "complete_body_p0 rt d paymentId txid =
     and_then (get_prop d ''status'') (\<lambda>st.
       Inr (JObj [(''status'', st), (''payment_id'', paymentId), (''txid'', txid),
                  (''completed_at'', JStr (now_iso rt))]))"

definition post_api_complete_p0 ::
  "runtime \<Rightarrow> request \<Rightarrow> user \<Rightarrow> upstream_call list \<Rightarrow> response \<times> upstream_call list" where
  "post_api_complete_p0 rt req usr tr =
     (case and_then (get_prop (req_body req) ''paymentId'') (\<lambda>paymentId.
           and_then (get_prop (req_body req) ''txid'') (\<lambda>txid. Inr (paymentId, txid))) of
        Inl error \<Rightarrow> (catch_p0 error ''Payment completion failed'', tr)
      | Inr (paymentId, txid) \<Rightarrow>
          if \<not> truthy paymentId \<or> \<not> truthy txid then
            (res_status_json 400 (JObj [(''error'', JStr ''Missing payment ID or transaction ID'')]), tr)
          else
            (case axios_post rt
                    (piConfig_mainnet_apiUrl rt @ ''/payments/'' @ js_to_string paymentId @ ''/complete'')
                    (JObj [(''txid'', txid)]) (key_headers rt) tr of
               (Inl error, tr') \<Rightarrow> (catch_p0 error ''Payment completion failed'', tr')
             | (Inr d, tr') \<Rightarrow>
                 (case complete_body_p0 rt d paymentId txid of
                    Inl error \<Rightarrow> (catch_p0 error ''Payment completion failed'', tr')
                  | Inr b \<Rightarrow> (res_json b, tr'))))"

definition get_api_health_p0 :: "runtime \<Rightarrow> response" where
  "get_api_health_p0 rt =
     res_json (JObj [(''status'', JStr ''operational''), (''version'', JStr ''1.0.0''),
                     (''timestamp'', JStr (now_iso rt))])"

definition error_middleware_p0 :: "runtime \<Rightarrow> js_error \<Rightarrow> response" where
  "error_middleware_p0 rt err =
     res_status_json 500
       (JObj [(''error'', JStr ''Internal server error''),
              (''message'',
                 if env_get (process_env rt) ''NODE_ENV'' = JStr ''development''
                 then JStr (err_message err) else JUndefined)])"

text \<open>The routes of \<^verbatim>\<open>part_000\<close>. It has no \<^verbatim>\<open>/api/payment/:paymentId\<close> route, so such a
  request falls through to the 404 handler.\<close>

definition app_p0 :: "runtime \<Rightarrow> request \<Rightarrow> upstream_call list \<Rightarrow> response \<times> upstream_call list" where
  "app_p0 rt req tr =
     (case req_endpoint req of
        GET_api_balance \<Rightarrow> protected authenticatePiRequest_p0 get_api_balance_p0 rt req tr
      | POST_api_approve \<Rightarrow> protected authenticatePiRequest_p0 post_api_approve_p0 rt req tr
      | POST_api_complete \<Rightarrow> protected authenticatePiRequest_p0 post_api_complete_p0 rt req tr
      | GET_api_payment p \<Rightarrow> (not_found, tr)
      | GET_api_health \<Rightarrow> (get_api_health_p0 rt, tr)
      | No_route \<Rightarrow> (not_found, tr))"

section \<open>Reading a response\<close>

text \<open>The fields of an object that have a value: a field whose value is \<^verbatim>\<open>undefined\<close>
  reads like an absent one.\<close>

fun has_field :: "json \<Rightarrow> string \<Rightarrow> bool" where
  "has_field (JObj kvs) k = (case map_of kvs k of None \<Rightarrow> False | Some v \<Rightarrow> v \<noteq> JUndefined)"
| "has_field v k = False"



definition sent_field :: "response \<Rightarrow> string \<Rightarrow> json option" where
  "sent_field r k =
     (case res_body r of
        None \<Rightarrow> None
      | Some b \<Rightarrow> if has_field b k then Some (opt_prop b k) else None)"

section \<open>Vocabulary of the statements\<close>

text \<open>The two source files side by side, so that a statement can range over both.\<close>

datatype source_file = Server_js | Part_000

fun base_url :: "source_file \<Rightarrow> runtime \<Rightarrow> string" where
  "base_url Server_js rt = PI_API_URL (process_env rt)"
| "base_url Part_000 rt = piConfig_mainnet_apiUrl rt"

fun middleware_of ::
  "source_file \<Rightarrow> runtime \<Rightarrow> request \<Rightarrow> upstream_call list \<Rightarrow> auth_outcome \<times> upstream_call list" where
  "middleware_of Server_js = authenticatePiRequest"
| "middleware_of Part_000 = authenticatePiRequest_p0"

fun app_of ::
  "source_file \<Rightarrow> runtime \<Rightarrow> request \<Rightarrow> upstream_call list \<Rightarrow> response \<times> upstream_call list" where
  "app_of Server_js = app"
| "app_of Part_000 = app_p0"

fun startup_of :: "source_file \<Rightarrow> host \<Rightarrow> string + json" where
  "startup_of Server_js = startup"
| "startup_of Part_000 = startup_p0"

text \<open>The identity check the middleware sends for the header \<open>h\<close>, and the call a
  handler sends with the service key.\<close>

definition me_call :: "string \<Rightarrow> string \<Rightarrow> upstream_call" where
  "me_call base h =
     \<lparr>call_verb = ''GET'', call_url = base @ ''/me'',
      call_headers = bearer_headers (js_index (js_split CHR '' '' h) 1),
      call_data = JUndefined\<rparr>"

definition key_call :: "runtime \<Rightarrow> string \<Rightarrow> string \<Rightarrow> json \<Rightarrow> upstream_call" where
  "key_call rt verb url d =
     \<lparr>call_verb = verb, call_url = url, call_headers = key_headers rt, call_data = d\<rparr>"

text \<open>A request without a bearer credential: no \<^verbatim>\<open>Authorization\<close> header, or one that does
  not start with \<^verbatim>\<open>"Bearer "\<close>.\<close>

definition no_bearer :: "request \<Rightarrow> bool" where
  "no_bearer req =
     (case req_authorization req of None \<Rightarrow> True | Some h \<Rightarrow> \<not> startsWith h ''Bearer '')"

definition is_2xx :: "nat \<Rightarrow> bool" where
  "is_2xx s = (200 \<le> s \<and> s < 300)"

text \<open>The three operations both files register behind \<^verbatim>\<open>authenticatePiRequest\<close>.\<close>

definition operation_route :: "endpoint \<Rightarrow> bool" where
  "operation_route ep =
     (ep = GET_api_balance \<or> ep = POST_api_approve \<or> ep = POST_api_complete)"

text \<open>A body (not \<^verbatim>\<open>null\<close> or \<^verbatim>\<open>undefined\<close>) in which the field \<open>k\<close> is absent or
  falsy.\<close>

definition field_missing :: "json \<Rightarrow> string \<Rightarrow> bool" where
  "field_missing b k = (case get_prop b k of Inl e \<Rightarrow> False | Inr v \<Rightarrow> \<not> truthy v)"



text \<open>A response reads as a success or as a failure: it carries a body; a 2xx answer is
  a 200 whose body has no \<^verbatim>\<open>error\<close> field, and the body of every other answer has an
  \<^verbatim>\<open>error\<close> field.\<close>

definition error_shape_ok :: "response \<Rightarrow> bool" where
  "error_shape_ok r =
     (case res_body r of
        None \<Rightarrow> False
      | Some b \<Rightarrow>
          if is_2xx (res_status r) then res_status r = 200 \<and> \<not> has_field b ''error''
          else has_field b ''error'')"

text \<open>What the two files do guarantee: the same, except that an answer with the status
  304 carries no body.\<close>

definition well_shaped :: "response \<Rightarrow> bool" where
  "well_shaped r = (if res_status r = 304 then res_body r = None else error_shape_ok r)"

subsection \<open>A concrete deployment\<close>

text \<open>The scenario of the specification: the upstream verifies the token \<^verbatim>\<open>abc\<close> as the
  user \<^verbatim>\<open>u1\<close>, knows that user's balance and the payment \<^verbatim>\<open>p1\<close>, and answers every other
  call with an error status. It also has three odd answers: the body \<^verbatim>\<open>null\<close> for the
  token \<^verbatim>\<open>nul\<close>, the status 304 for the token \<^verbatim>\<open>old\<close>, and the body \<^verbatim>\<open>null\<close> for the
  approval of the payment \<^verbatim>\<open>pn\<close>; and it approves a payment named \<^verbatim>\<open>Infinity\<close>. It completes
  the payment \<^verbatim>\<open>p1\<close>. Both files are pointed at the same base URL.\<close>

definition scenario_env :: "string \<rightharpoonup> string" where
  "scenario_env =
     [''PI_API_KEY'' \<mapsto> ''key'', ''FRONTEND_URL'' \<mapsto> ''https://app.example'',
      ''NODE_ENV'' \<mapsto> ''production'', ''PORT'' \<mapsto> ''3000'']"

definition scenario_upstream :: upstream_api where
  "scenario_upstream tr c =
     (if call_url c = ''https://api.minepi.com/v2/me'' then
        (if call_headers c = bearer_headers (JStr ''abc'')
         then Response 200 (JObj [(''uid'', JStr ''u1''), (''username'', JStr ''alice'')])
         else if call_headers c = bearer_headers (JStr ''nul'')
         then Response 200 JNull
         else if call_headers c = bearer_headers (JStr ''old'')
         then Response 304 (JStr [])
         else Response 401 (JObj [(''message'', JStr ''Unauthorized'')]))
      else if call_url c = ''https://api.minepi.com/v2/accounts/u1/balance'' then
        Response 200 (JObj [(''available_balance'', JNum ''10''), (''locked_balance'', JNum ''2'')])
      else if call_url c = ''https://api.minepi.com/v2/payments/p1/approve'' then
        Response 200 (JObj [(''status'', JStr ''approved''), (''amount'', JNum ''3''),
                            (''memo'', JStr ''tea'')])
      else if call_url c = ''https://api.minepi.com/v2/payments/pn/approve'' then
        Response 200 JNull
      else if call_url c = ''https://api.minepi.com/v2/payments/Infinity/approve'' then
        Response 200 (JObj [(''status'', JStr ''approved'')])
      else if call_url c = ''https://api.minepi.com/v2/payments/p1/complete'' then
        Response 200 (JObj [(''status'', JStr ''completed''),
                            (''transaction'', JObj [(''txid'', JStr ''t1''), (''verified'', JBool True)])])
      else Response 404 (JObj [(''message'', JStr ''Not found'')]))"

definition scenario :: runtime where
  "scenario =
     \<lparr>process_env = scenario_env, now_iso = ''2024-01-01T00:00:00.000Z'',
      upstream = scenario_upstream, piConfig_mainnet_apiUrl = ''https://api.minepi.com/v2''\<rparr>"


definition scenario_request :: "endpoint \<Rightarrow> string option \<Rightarrow> json \<Rightarrow> request" where
  "scenario_request ep h b =
     \<lparr>req_endpoint = ep, req_authorization = h, req_headers = [], req_body = b\<rparr>"

section \<open>Facts about the JavaScript helpers and axios\<close>

lemma js_split_nonempty: "js_split c s \<noteq> []"
  by (induction s) (auto split: list.splits)

lemma hd_js_split: "hd (js_split c s) = takeWhile (\<lambda>x. x \<noteq> c) s"
  by (induction s) (auto split: list.splits simp: js_split_nonempty)

lemma js_split_Bearer:
  "js_split CHR '' '' (''Bearer '' @ rest) = ''Bearer'' # js_split CHR '' '' rest"
  by (simp split: list.splits add: js_split_nonempty)

lemma bearer_token:
  "js_index (js_split CHR '' '' (''Bearer '' @ rest)) 1 =
     JStr (takeWhile (\<lambda>x. x \<noteq> CHR '' '') rest)"
proof -
  obtain w ws where ws: "js_split CHR '' '' rest = w # ws"
    using js_split_nonempty [of "CHR '' ''" rest] by (cases "js_split CHR '' '' rest") auto
  then have "w = takeWhile (\<lambda>x. x \<noteq> CHR '' '') rest"
    using hd_js_split [of "CHR '' ''" rest] by simp
  with ws show ?thesis
    by (simp add: js_index_def js_split_Bearer)
qed

lemma snd_axios_request: "snd (axios_request rt c tr) = tr @ [c]"
  by (simp add: axios_request_def split: upstream_result.splits)

lemma snd_axios_get:
  "snd (axios_get rt url hs tr) =
     tr @ [\<lparr>call_verb = ''GET'', call_url = url, call_headers = hs, call_data = JUndefined\<rparr>]"
  by (simp add: axios_get_def snd_axios_request)

lemma middleware_no_bearer:
  assumes "no_bearer req"
  shows "middleware_of v rt req tr =
    (Responded (res_status_json 401 (JObj [(''error'', JStr ''Authorization header required'')])), tr)"
  using assms
  by (cases v)
     (auto simp: no_bearer_def authenticatePiRequest_def authenticatePiRequest_p0_def
           split: option.splits)

lemma middleware_calls:
  assumes "req_authorization req = Some h" "startsWith h ''Bearer ''"
  shows "snd (middleware_of v rt req tr) = tr @ [me_call (base_url v rt) h]"
proof -
  let ?g = "axios_get rt (base_url v rt @ ''/me'')
              (bearer_headers (js_index (js_split CHR '' '' h) 1)) tr"
  have "snd (middleware_of v rt req tr) = snd ?g"
    using assms
    by (cases v; cases ?g)
       (auto simp: authenticatePiRequest_def authenticatePiRequest_p0_def Let_def
             split: sum.splits)
  then show ?thesis by (simp add: snd_axios_get me_call_def)
qed

lemma axios_request_Inl:
  assumes "axios_request rt c tr = (Inl e, tr')"
  shows "\<not> is_2xx (error_status e)" and "tr' = tr @ [c]"
  using assms
  by (auto simp: axios_request_def error_status_def is_2xx_def
           split: upstream_result.splits if_splits)

lemma axios_request_Inr:
  assumes "axios_request rt c tr = (Inr d, tr')"
  shows "\<exists>s. upstream rt tr c = Response s d \<and> is_2xx s" and "tr' = tr @ [c]"
  using assms
  by (auto simp: axios_request_def is_2xx_def split: upstream_result.splits if_splits)

lemma axios_request_resolves:
  assumes "upstream rt tr c = Response s d" "is_2xx s"
  shows "axios_request rt c tr = (Inr d, tr @ [c])"
  using assms by (simp add: axios_request_def is_2xx_def)

lemma axios_request_no_response:
  assumes "upstream rt tr c = NoResponse m"
  shows "axios_request rt c tr = (Inl (JsError m None), tr @ [c])"
  using assms by (simp add: axios_request_def)

lemma axios_request_rejects:
  assumes "upstream rt tr c = Response s d" "\<not> is_2xx s"
  shows "axios_request rt c tr =
    (Inl (JsError (''Request failed with status code '' @ show_nat s) (Some (s, d))), tr @ [c])"
  using assms by (simp add: axios_request_def is_2xx_def)

lemma get_prop_Inl:
  assumes "get_prop v k = Inl e"
  shows "err_response e = None" and "v = JUndefined \<or> v = JNull"
  using assms by (cases v; auto)+

lemma get_prop_Inr:
  assumes "get_prop v k = Inr u"
  shows "get_prop v k' = Inr (opt_prop v k')"
  using assms by (cases v) auto

lemma error_status_no_response: "err_response e = None \<Longrightarrow> error_status e = 500"
  by (simp add: error_status_def)

lemma not_2xx_500: "\<not> is_2xx 500" and not_2xx_401: "\<not> is_2xx 401"
  and not_2xx_400: "\<not> is_2xx 400" and not_2xx_404: "\<not> is_2xx 404"
  and is_2xx_200: "is_2xx 200"
  by (simp_all add: is_2xx_def)

lemma make_user_Inr:
  assumes "get_prop d ''uid'' = Inr u"
  shows "make_user d =
    Inr \<lparr>uid = u, username = opt_prop d ''username'', walletAddress = opt_prop d ''wallet_address''\<rparr>"
  using assms get_prop_Inr [OF assms, of "''username''"] get_prop_Inr [OF assms, of "''wallet_address''"]
  by (simp add: make_user_def and_then_def)

lemma error_text_truthy: "fallback \<noteq> [] \<Longrightarrow> truthy (error_text e fallback)"
  by (simp add: error_text_def js_or_def)

subsection \<open>Serialisation\<close>

lemma to_wire_json_text: "json_text v \<Longrightarrow> to_wire v = v"
proof (induction v)
  case (JArr xs)
  have "x \<in> set xs \<Longrightarrow> x \<noteq> JUndefined" for x
    using JArr.prems by (auto simp: list_all_iff)
  then show ?case
    using JArr by (auto simp: list_all_iff intro!: map_idI)
next
  case (JObj kvs)
  have f: "filter (\<lambda>kv. snd kv \<noteq> JUndefined) kvs = kvs"
    using JObj.prems by (auto simp: list_all_iff intro!: filter_True)
  have "map (\<lambda>kv. (fst kv, to_wire (snd kv))) kvs = kvs"
    using JObj by (auto simp: list_all_iff intro!: map_idI)
  with f show ?case by simp
qed simp_all

lemma to_wire_undefined [simp]: "(to_wire v = JUndefined) = (v = JUndefined)"
  by (cases v) simp_all

lemma has_field_to_wire:
  assumes "has_field (to_wire (JObj kvs)) k"
  shows "k \<in> fst ` set kvs"
proof -
  obtain v where "map_of (map (\<lambda>kv. (fst kv, to_wire (snd kv)))
                            (filter (\<lambda>kv. snd kv \<noteq> JUndefined) kvs)) k = Some v"
    using assms by (auto split: option.splits)
  then have "(k, v) \<in> set (map (\<lambda>kv. (fst kv, to_wire (snd kv)))
                              (filter (\<lambda>kv. snd kv \<noteq> JUndefined) kvs))"
    by (rule map_of_SomeD)
  then show ?thesis by force
qed

lemma no_body_not_2xx: "\<not> is_2xx s \<Longrightarrow> no_body_status s = (s = 304)"
  by (auto simp: is_2xx_def no_body_status_def)

subsection \<open>Shape of an answer\<close>

lemma error_body_shape:
  assumes "\<not> is_2xx s" "v \<noteq> JUndefined"
  shows "well_shaped (res_status_json s (JObj ((''error'', v) # rest)))"
  using assms
  by (simp add: well_shaped_def error_shape_ok_def res_status_json_def no_body_not_2xx)

lemma catch_p0_shape:
  assumes "fallback \<noteq> []" "\<not> is_2xx (error_status e)"
  shows "well_shaped (catch_p0 e fallback)"
  unfolding catch_p0_def
  using assms(2) error_text_truthy [OF assms(1), of e]
  by (intro error_body_shape) auto

lemma auth_catch_shape:
  assumes "\<not> is_2xx (error_status e)"
  shows "well_shaped (auth_catch rt e)"
  unfolding auth_catch_def using assms by (intro error_body_shape) auto

lemma fixed_error_shape:
  assumes "\<not> is_2xx s"
  shows "well_shaped (res_status_json s (JObj [(''error'', JStr m)]))"
  using assms by (intro error_body_shape) auto

lemma success_shape:
  assumes "''error'' \<notin> fst ` set kvs"
  shows "well_shaped (res_json (JObj kvs))"
  using assms has_field_to_wire [of kvs "''error''"]
  by (auto simp: well_shaped_def error_shape_ok_def res_json_def is_2xx_def)

subsection \<open>Outcomes of the authentication middleware\<close>

lemma middleware_verified:
  assumes "req_authorization req = Some h" "startsWith h ''Bearer ''"
      and "upstream rt tr (me_call (base_url v rt) h) = Response s d" "is_2xx s"
      and "get_prop d ''uid'' = Inr u" "truthy u"
  shows "middleware_of v rt req tr =
    (CallNext \<lparr>uid = u, username = opt_prop d ''username'',
               walletAddress = opt_prop d ''wallet_address''\<rparr>,
     tr @ [me_call (base_url v rt) h])"
proof -
  have "axios_get rt (base_url v rt @ ''/me'') (bearer_headers (js_index (js_split CHR '' '' h) 1)) tr
          = (Inr d, tr @ [me_call (base_url v rt) h])"
    using axios_request_resolves [OF assms(3,4)] by (simp add: axios_get_def me_call_def)
  then show ?thesis
    using assms(1,2,5,6) make_user_Inr [OF assms(5)]
    by (cases v) (simp_all add: authenticatePiRequest_def authenticatePiRequest_p0_def)
qed

lemma res_status_catch_p0 [simp]: "res_status (catch_p0 e f) = error_status e"
  by (simp add: catch_p0_def res_status_json_def)

lemma res_status_auth_catch [simp]: "res_status (auth_catch rt e) = error_status e"
  by (simp add: auth_catch_def res_status_json_def)

lemma res_status_res_status_json [simp]: "res_status (res_status_json s b) = s"
  by (simp add: res_status_json_def)

lemma middleware_Responded:
  assumes "middleware_of v rt req tr = (Responded r, tr')"
  shows "well_shaped r" and "\<not> is_2xx (res_status r)"
proof -
  have "well_shaped r \<and> \<not> is_2xx (res_status r)"
  proof (cases "no_bearer req")
    case True
    then show ?thesis
      using assms middleware_no_bearer [OF True, of v rt tr]
      by (auto simp: fixed_error_shape not_2xx_401)
  next
    case False
    then obtain h where h: "req_authorization req = Some h" "startsWith h ''Bearer ''"
      by (auto simp: no_bearer_def split: option.splits)
    let ?hs = "bearer_headers (js_index (js_split CHR '' '' h) 1)"
    let ?g = "axios_get rt (base_url v rt @ ''/me'') ?hs tr"
    obtain res tr1 where g: "?g = (res, tr1)" by (cases ?g)
    show ?thesis
    proof (cases res)
      case (Inl e)
      then have e: "\<not> is_2xx (error_status e)"
        using g axios_request_Inl(1) by (auto simp: axios_get_def)
      have "r = (case v of Server_js \<Rightarrow> auth_catch rt e
                 | Part_000 \<Rightarrow> catch_p0 e ''Authentication failed'')"
        using assms h g Inl
        by (cases v) (auto simp: authenticatePiRequest_def authenticatePiRequest_p0_def)
      then show ?thesis
        using e by (cases v) (auto simp: auth_catch_shape catch_p0_shape)
    next
      case (Inr d)
      show ?thesis
      proof (cases "get_prop d ''uid''")
        case (Inl e)
        then have e: "\<not> is_2xx (error_status e)"
          using get_prop_Inl(1) [OF Inl] by (simp add: error_status_no_response not_2xx_500)
        have "r = (case v of Server_js \<Rightarrow> auth_catch rt e
                   | Part_000 \<Rightarrow> catch_p0 e ''Authentication failed'')"
          using assms h g Inr Inl
          by (cases v) (auto simp: authenticatePiRequest_def authenticatePiRequest_p0_def)
        then show ?thesis
          using e by (cases v) (auto simp: auth_catch_shape catch_p0_shape)
      next
        case u: (Inr u)
        have "r = res_status_json 401 (JObj [(''error'', JStr ''Invalid authentication token'')])"
          using assms h g Inr u make_user_Inr [OF u]
          by (cases v)
             (auto simp: authenticatePiRequest_def authenticatePiRequest_p0_def
                   split: if_splits)
        then show ?thesis
          by (simp add: fixed_error_shape not_2xx_401)
      qed
    qed
  qed
  then show "well_shaped r" and "\<not> is_2xx (res_status r)" by simp_all
qed

lemma middleware_CallNext:
  assumes "middleware_of v rt req tr = (CallNext usr, tr')"
  shows "\<exists>h s d. req_authorization req = Some h \<and> startsWith h ''Bearer ''
            \<and> upstream rt tr (me_call (base_url v rt) h) = Response s d \<and> is_2xx s
            \<and> get_prop d ''uid'' = Inr (uid usr) \<and> truthy (uid usr)
            \<and> tr' = tr @ [me_call (base_url v rt) h]"
proof -
  have nb: "\<not> no_bearer req"
    using assms middleware_no_bearer [of req v rt tr] by auto
  then obtain h where h: "req_authorization req = Some h" "startsWith h ''Bearer ''"
    by (auto simp: no_bearer_def split: option.splits)
  let ?hs = "bearer_headers (js_index (js_split CHR '' '' h) 1)"
  let ?g = "axios_get rt (base_url v rt @ ''/me'') ?hs tr"
  obtain res tr1 where g: "?g = (res, tr1)" by (cases ?g)
  have g': "axios_request rt (me_call (base_url v rt) h) tr = (res, tr1)"
    using g by (simp add: axios_get_def me_call_def)
  obtain d where d: "res = Inr d"
    using assms h g
    by (cases v; cases res)
       (auto simp: authenticatePiRequest_def authenticatePiRequest_p0_def)
  obtain u where u: "get_prop d ''uid'' = Inr u"
    using assms h g d
    by (cases v; cases "get_prop d ''uid''")
       (auto simp: authenticatePiRequest_def authenticatePiRequest_p0_def)
  have "truthy u \<and> uid usr = u"
    using assms h g d u make_user_Inr [OF u]
    by (cases v)
       (auto simp: authenticatePiRequest_def authenticatePiRequest_p0_def split: if_splits)
  moreover have "tr' = tr @ [me_call (base_url v rt) h]"
    using middleware_calls [OF h, of v rt tr] assms by simp
  ultimately show ?thesis
    using h u axios_request_Inr(1) [OF g' [unfolded d]] by auto
qed

subsection \<open>Routing\<close>

lemma app_of_Responded:
  assumes "operation_route (req_endpoint req)
           \<or> v = Server_js \<and> req_endpoint req = GET_api_payment p"
      and "middleware_of v rt req tr = (Responded r, tr')"
  shows "app_of v rt req tr = (r, tr')"
  using assms
  by (cases v; cases "req_endpoint req")
     (simp_all add: app_def app_p0_def protected_def operation_route_def)

lemma app_of_CallNext:
  assumes "middleware_of v rt req tr = (CallNext usr, tr')"
  shows "req_endpoint req = GET_api_balance \<Longrightarrow>
           app_of v rt req tr =
             (case v of Server_js \<Rightarrow> get_api_balance rt req usr tr'
              | Part_000 \<Rightarrow> get_api_balance_p0 rt req usr tr')"
    and "req_endpoint req = POST_api_approve \<Longrightarrow>
           app_of v rt req tr =
             (case v of Server_js \<Rightarrow> post_api_approve rt req usr tr'
              | Part_000 \<Rightarrow> post_api_approve_p0 rt req usr tr')"
    and "req_endpoint req = POST_api_complete \<Longrightarrow>
           app_of v rt req tr =
             (case v of Server_js \<Rightarrow> post_api_complete rt req usr tr'
              | Part_000 \<Rightarrow> post_api_complete_p0 rt req usr tr')"
  using assms
  by (cases v; simp add: app_def app_p0_def protected_def)+

lemma app_CallNext_payment:
  assumes "authenticatePiRequest rt req tr = (CallNext usr, tr')"
      and "req_endpoint req = GET_api_payment p"
  shows "app rt req tr = get_api_payment rt p req usr tr'"
  using assms by (simp add: app_def protected_def)






subsection \<open>The scenario\<close>

lemma scenario_base_url: "base_url v scenario = ''https://api.minepi.com/v2''"
  by (cases v) (simp_all add: scenario_def PI_API_URL_def env_get_def scenario_env_def)

lemma scenario_me_abc:
  "upstream scenario tr (me_call ''https://api.minepi.com/v2'' ''Bearer abc'') =
     Response 200 (JObj [(''uid'', JStr ''u1''), (''username'', JStr ''alice'')])"
  by (simp add: scenario_def scenario_upstream_def me_call_def js_index_def bearer_headers_def)

lemma scenario_verified:
  "middleware_of v scenario (scenario_request ep (Some ''Bearer abc'') b) tr =
     (CallNext \<lparr>uid = JStr ''u1'', username = JStr ''alice'', walletAddress = JUndefined\<rparr>,
      tr @ [me_call ''https://api.minepi.com/v2'' ''Bearer abc''])"
  using middleware_verified
          [where v = v and rt = scenario and h = "''Bearer abc''" and tr = tr and s = 200
             and req = "scenario_request ep (Some ''Bearer abc'') b"
             and d = "JObj [(''uid'', JStr ''u1''), (''username'', JStr ''alice'')]"
             and u = "JStr ''u1''"]
  by (simp add: scenario_base_url scenario_me_abc scenario_request_def startsWith_def is_2xx_def)

subsection \<open>The bodies built from an upstream answer\<close>

lemma and_then_get_prop:
  "and_then (get_prop d k) f =
     (case get_prop d k of Inl e \<Rightarrow> Inl e | Inr x \<Rightarrow> f (opt_prop d k))"
  by (cases d) (simp_all add: and_then_def)

lemma get_prop_defined: "d \<noteq> JUndefined \<Longrightarrow> d \<noteq> JNull \<Longrightarrow> get_prop d k = Inr (opt_prop d k)"
  by (cases d) simp_all

lemma get_prop_undefined_err:
  "d = JUndefined \<or> d = JNull \<Longrightarrow> \<exists>e. get_prop d k = Inl e \<and> err_response e = None"
  by auto

lemma balance_body_Inr:
  "balance_body rt d = Inr b \<Longrightarrow>
     b = JObj [(''available'', opt_prop d ''available_balance''),
               (''locked'', opt_prop d ''locked_balance''), (''currency'', JStr ''PI''),
               (''last_updated'', JStr (now_iso rt))]"
  by (auto simp: balance_body_def and_then_get_prop split: sum.splits)

lemma balance_body_p0_Inr:
  "balance_body_p0 rt d = Inr b \<Longrightarrow>
     b = JObj [(''available_balance'', opt_prop d ''available_balance''),
               (''locked_balance'', opt_prop d ''locked_balance''), (''currency'', JStr ''PI''),
               (''last_updated'', JStr (now_iso rt))]"
  by (auto simp: balance_body_p0_def and_then_get_prop split: sum.splits)

lemma approve_body_Inr:
  "approve_body d pid = Inr b \<Longrightarrow>
     b = JObj [(''status'', opt_prop d ''status''), (''payment_id'', pid),
               (''amount'', opt_prop d ''amount''), (''memo'', opt_prop d ''memo'')]"
  by (auto simp: approve_body_def and_then_get_prop split: sum.splits)

lemma approve_body_p0_Inr:
  "approve_body_p0 rt d pid = Inr b \<Longrightarrow>
     b = JObj [(''status'', opt_prop d ''status''), (''payment_id'', pid),
               (''timestamp'', JStr (now_iso rt))]"
  by (auto simp: approve_body_p0_def and_then_get_prop split: sum.splits)

lemma complete_body_Inr:
  "complete_body rt d pid txid = Inr b \<Longrightarrow>
     b = JObj [(''status'', opt_prop d ''status''), (''payment_id'', pid), (''txid'', txid),
               (''verified'', opt_prop (opt_prop d ''transaction'') ''verified''),
               (''completed_at'', JStr (now_iso rt))]"
  by (auto simp: complete_body_def and_then_get_prop split: sum.splits)

lemma complete_body_p0_Inr:
  "complete_body_p0 rt d pid txid = Inr b \<Longrightarrow>
     b = JObj [(''status'', opt_prop d ''status''), (''payment_id'', pid), (''txid'', txid),
               (''completed_at'', JStr (now_iso rt))]"
  by (auto simp: complete_body_p0_def and_then_get_prop split: sum.splits)

lemma payment_body_Inr:
  "payment_body d = Inr b \<Longrightarrow>
     b = JObj [(''id'', opt_prop d ''identifier''), (''amount'', opt_prop d ''amount''),
               (''status'', opt_prop d ''status''), (''created_at'', opt_prop d ''created_at''),
               (''txid'', opt_prop (opt_prop d ''transaction'') ''txid''),
               (''verified'', opt_prop (opt_prop d ''transaction'') ''verified'')]"
  by (auto simp: payment_body_def and_then_get_prop split: sum.splits)

lemma body_Inl:
  "balance_body rt d = Inl e \<Longrightarrow> err_response e = None"
  "balance_body_p0 rt d = Inl e \<Longrightarrow> err_response e = None"
  "approve_body d pid = Inl e \<Longrightarrow> err_response e = None"
  "approve_body_p0 rt d pid = Inl e \<Longrightarrow> err_response e = None"
  "complete_body rt d pid txid = Inl e \<Longrightarrow> err_response e = None"
  "complete_body_p0 rt d pid txid = Inl e \<Longrightarrow> err_response e = None"
  "payment_body d = Inl e \<Longrightarrow> err_response e = None"
  by (auto simp: balance_body_def balance_body_p0_def approve_body_def approve_body_p0_def
        complete_body_def complete_body_p0_def payment_body_def and_then_get_prop
      split: sum.splits dest: get_prop_Inl(1))

subsection \<open>Shape of the handlers' answers\<close>

lemma catch_p0_local:
  assumes "err_response e = None" "f \<noteq> []"
  shows "well_shaped (catch_p0 e f)"
  using assms by (simp add: catch_p0_shape error_status_no_response not_2xx_500)

lemma catch_p0_axios:
  assumes "axios_request rt c tr = (Inl e, tr')" "f \<noteq> []"
  shows "well_shaped (catch_p0 e f)"
  using assms by (simp add: catch_p0_shape axios_request_Inl(1))

lemma get_api_balance_shape: "well_shaped (fst (get_api_balance rt req usr tr))"
  by (auto simp: get_api_balance_def axios_get_def fixed_error_shape not_2xx_500
           split: prod.splits sum.splits
           dest!: balance_body_Inr intro!: success_shape)

lemma post_api_approve_shape: "well_shaped (fst (post_api_approve rt req usr tr))"
  by (auto simp: post_api_approve_def axios_post_def fixed_error_shape not_2xx_500 not_2xx_400
           split: prod.splits sum.splits
           dest!: approve_body_Inr intro!: success_shape)

lemma post_api_complete_shape: "well_shaped (fst (post_api_complete rt req usr tr))"
  by (auto simp: post_api_complete_def axios_post_def fixed_error_shape not_2xx_500 not_2xx_400
           split: prod.splits sum.splits
           dest!: complete_body_Inr intro!: success_shape)

lemma get_api_payment_shape: "well_shaped (fst (get_api_payment rt p req usr tr))"
  by (auto simp: get_api_payment_def axios_get_def fixed_error_shape not_2xx_500
           split: prod.splits sum.splits
           dest!: payment_body_Inr intro!: success_shape)

lemma get_api_balance_p0_shape: "well_shaped (fst (get_api_balance_p0 rt req usr tr))"
  by (auto simp: get_api_balance_p0_def axios_get_def catch_p0_axios
           split: prod.splits sum.splits
           dest!: balance_body_p0_Inr body_Inl(2) intro!: success_shape catch_p0_local)

lemma post_api_approve_p0_shape: "well_shaped (fst (post_api_approve_p0 rt req usr tr))"
  by (auto simp: post_api_approve_p0_def axios_post_def catch_p0_axios fixed_error_shape not_2xx_400
           split: prod.splits sum.splits
           dest!: approve_body_p0_Inr body_Inl(4) get_prop_Inl(1)
           intro!: success_shape catch_p0_local)

lemma post_api_complete_p0_shape: "well_shaped (fst (post_api_complete_p0 rt req usr tr))"
  by (auto simp: post_api_complete_p0_def axios_post_def catch_p0_axios fixed_error_shape
             not_2xx_400 and_then_get_prop
           split: prod.splits sum.splits
           dest!: complete_body_p0_Inr body_Inl(6) get_prop_Inl(1)
           intro!: success_shape catch_p0_local)

lemma unguarded_shapes:
  "well_shaped (get_api_health rt)" "well_shaped (get_api_health_p0 rt)"
  "well_shaped not_found"
  "well_shaped (error_middleware rt err)" "well_shaped (error_middleware_p0 rt err)"
  by (simp_all add: well_shaped_def error_shape_ok_def get_api_health_def get_api_health_p0_def
        not_found_def error_middleware_def error_middleware_p0_def res_json_def
        res_status_json_def is_2xx_def no_body_status_def)

text \<open>Every answer of either file is well shaped: apart from a 304, which has no body,
  a 2xx answer is a 200 whose body has no \<^verbatim>\<open>error\<close> field and every other answer has a
  body with an \<^verbatim>\<open>error\<close> field.\<close>

lemma answers_are_well_shaped:
  "well_shaped (fst (app_of v rt req tr))"
proof (cases "operation_route (req_endpoint req)
              \<or> v = Server_js \<and> (\<exists>p. req_endpoint req = GET_api_payment p)")
  case False
  then show ?thesis
    by (cases v; cases "req_endpoint req")
       (simp_all add: app_def app_p0_def unguarded_shapes operation_route_def)
next
  case True
  then obtain p where p: "operation_route (req_endpoint req)
           \<or> v = Server_js \<and> req_endpoint req = GET_api_payment p" by blast
  obtain out tr' where m: "middleware_of v rt req tr = (out, tr')"
    by (cases "middleware_of v rt req tr")
  show ?thesis
  proof (cases out)
    case (Responded r)
    then show ?thesis
      using app_of_Responded [OF p m [unfolded Responded]] middleware_Responded(1) m
      by simp
  next
    case (CallNext usr)
    note mm = m [unfolded CallNext]
    show ?thesis
      using p app_of_CallNext [OF mm] app_CallNext_payment [of rt req tr usr tr'] mm
      by (cases v; cases "req_endpoint req")
         (simp_all add: get_api_balance_shape post_api_approve_shape post_api_complete_shape
            get_api_payment_shape get_api_balance_p0_shape post_api_approve_p0_shape
            post_api_complete_p0_shape operation_route_def)
  qed
qed

subsection \<open>When a handler answers 200\<close>

lemma catch_p0_not_200_local:
  "err_response e = None \<Longrightarrow> res_status (catch_p0 e f) \<noteq> 200"
  by (simp add: error_status_no_response)

lemma catch_p0_not_200_axios:
  "axios_request rt c tr = (Inl e, tr') \<Longrightarrow> res_status (catch_p0 e f) \<noteq> 200"
  using axios_request_Inl(1) [of rt c tr e tr'] by (auto simp: is_2xx_def)

lemma res_json_eq [simp]:
  "res_status (res_json b) = 200" "res_body (res_json b) = Some (to_wire b)"
  by (simp_all add: res_json_def)

lemma axios_post_key_call:
  "axios_post rt url d (key_headers rt) tr = axios_request rt (key_call rt ''POST'' url d) tr"
  by (simp add: axios_post_def key_call_def)




lemma post_api_approve_resolved:
  assumes "get_prop (req_body req) ''paymentId'' = Inr pid" and "truthy pid"
      and "upstream rt tr
             (key_call rt ''POST''
                (PI_API_URL (process_env rt) @ ''/payments/'' @ js_to_string pid @ ''/approve'')
                (JObj [])) = Response s d"
      and "is_2xx s" and "d \<noteq> JUndefined" and "d \<noteq> JNull"
  shows "post_api_approve rt req usr tr =
         (res_json (JObj [(''status'', opt_prop d ''status''), (''payment_id'', pid),
                          (''amount'', opt_prop d ''amount''), (''memo'', opt_prop d ''memo'')]),
          tr @ [key_call rt ''POST''
                  (PI_API_URL (process_env rt) @ ''/payments/'' @ js_to_string pid @ ''/approve'')
                  (JObj [])])"
  using axios_request_resolves [OF assms(3,4)] assms(1,2,5,6)
  by (simp add: post_api_approve_def axios_post_key_call approve_body_def and_then_def
        get_prop_defined)

lemma post_api_approve_p0_resolved:
  assumes "get_prop (req_body req) ''paymentId'' = Inr pid" and "truthy pid" and "is_string pid"
      and "upstream rt tr
             (key_call rt ''POST''
                (piConfig_mainnet_apiUrl rt @ ''/payments/'' @ js_to_string pid @ ''/approve'')
                (JObj [])) = Response s d"
      and "is_2xx s" and "d \<noteq> JUndefined" and "d \<noteq> JNull"
  shows "post_api_approve_p0 rt req usr tr =
         (res_json (JObj [(''status'', opt_prop d ''status''), (''payment_id'', pid),
                          (''timestamp'', JStr (now_iso rt))]),
          tr @ [key_call rt ''POST''
                  (piConfig_mainnet_apiUrl rt @ ''/payments/'' @ js_to_string pid @ ''/approve'')
                  (JObj [])])"
  using axios_request_resolves [OF assms(4,5)] assms(1,2,3,6,7)
  by (simp add: post_api_approve_p0_def axios_post_key_call approve_body_p0_def and_then_def
        get_prop_defined)

text \<open>An upstream answer 2xx with the body \<^verbatim>\<open>null\<close> sends the approve handler to its
  \<^verbatim>\<open>catch\<close>.\<close>

lemma post_api_approve_null:
  assumes "get_prop (req_body req) ''paymentId'' = Inr pid" and "truthy pid"
      and "upstream rt tr
             (key_call rt ''POST''
                (PI_API_URL (process_env rt) @ ''/payments/'' @ js_to_string pid @ ''/approve'')
                (JObj [])) = Response s JNull"
      and "is_2xx s"
  shows "post_api_approve rt req usr tr =
         (res_status_json 500 (JObj [(''error'', JStr ''Payment approval failed'')]),
          tr @ [key_call rt ''POST''
                  (PI_API_URL (process_env rt) @ ''/payments/'' @ js_to_string pid @ ''/approve'')
                  (JObj [])])"
  using axios_request_resolves [OF assms(3,4)] assms(1,2)
  by (simp add: post_api_approve_def axios_post_key_call approve_body_def and_then_def)

lemma post_api_approve_p0_null:
  assumes "get_prop (req_body req) ''paymentId'' = Inr pid" and "truthy pid" and "is_string pid"
      and "upstream rt tr
             (key_call rt ''POST''
                (piConfig_mainnet_apiUrl rt @ ''/payments/'' @ js_to_string pid @ ''/approve'')
                (JObj [])) = Response s JNull"
      and "is_2xx s"
  shows "post_api_approve_p0 rt req usr tr =
         (res_status_json 500 (JObj [(''error'', JStr ''Payment approval failed'')]),
          tr @ [key_call rt ''POST''
                  (piConfig_mainnet_apiUrl rt @ ''/payments/'' @ js_to_string pid @ ''/approve'')
                  (JObj [])])"
  using axios_request_resolves [OF assms(4,5)] assms(1,2,3)
  by (simp add: post_api_approve_p0_def axios_post_key_call approve_body_p0_def and_then_def
        catch_p0_def error_status_def error_text_def js_or_def)

subsection \<open>Validation of the request body\<close>

lemma field_missing_D:
  assumes "field_missing b k"
  shows "get_prop b k = Inr (opt_prop b k)" "\<not> truthy (opt_prop b k)"
  using assms by (cases b; simp add: field_missing_def)+

lemma field_missing_other:
  assumes "field_missing b k"
  shows "get_prop b k' = Inr (opt_prop b k')"
  using assms by (cases b) (simp_all add: field_missing_def)

lemma approve_missing:
  assumes "field_missing (req_body req) ''paymentId''"
  shows "post_api_approve rt req usr tr =
           (res_status_json 400 (JObj [(''error'', JStr ''Missing payment ID'')]), tr)"
    and "post_api_approve_p0 rt req usr tr =
           (res_status_json 400 (JObj [(''error'', JStr ''Invalid payment ID'')]), tr)"
  using field_missing_D [OF assms]
  by (simp_all add: post_api_approve_def post_api_approve_p0_def)

lemma complete_missing:
  assumes "field_missing (req_body req) ''paymentId'' \<or> field_missing (req_body req) ''txid''"
  shows "post_api_complete rt req usr tr =
           (res_status_json 400 (JObj [(''error'', JStr ''Missing payment ID or transaction ID'')]), tr)"
    and "post_api_complete_p0 rt req usr tr =
           (res_status_json 400 (JObj [(''error'', JStr ''Missing payment ID or transaction ID'')]), tr)"
  using assms field_missing_D(2) [of "req_body req"]
        field_missing_other [of "req_body req" _ "''paymentId''"]
        field_missing_other [of "req_body req" _ "''txid''"]
  by (auto simp: post_api_complete_def post_api_complete_p0_def and_then_def)

subsection \<open>An operation that the upstream answers\<close>


lemma app_approve_resolved:
  assumes "req_endpoint req = POST_api_approve"
      and "middleware_of v rt req tr = (CallNext usr, tr1)"
      and "get_prop (req_body req) ''paymentId'' = Inr pid" and "truthy pid"
      and "v = Server_js \<or> is_string pid"
      and "upstream rt tr1
             (key_call rt ''POST''
                (base_url v rt @ ''/payments/'' @ js_to_string pid @ ''/approve'')
                (JObj [])) = Response s d"
      and "is_2xx s" and "d \<noteq> JUndefined" and "d \<noteq> JNull"
  shows "app_of v rt req tr =
         (res_json
            (JObj ([(''status'', opt_prop d ''status''), (''payment_id'', pid)] @
                   (case v of
                      Server_js \<Rightarrow> [(''amount'', opt_prop d ''amount''), (''memo'', opt_prop d ''memo'')]
                    | Part_000 \<Rightarrow> [(''timestamp'', JStr (now_iso rt))]))),
          tr1 @ [key_call rt ''POST''
                   (base_url v rt @ ''/payments/'' @ js_to_string pid @ ''/approve'')
                   (JObj [])])"
proof (cases v)
  case Server_js
  then show ?thesis
    using app_of_CallNext(2) [OF assms(2,1)]
          post_api_approve_resolved [of req pid rt tr1 s d usr] assms(3-9)
    by simp
next
  case Part_000
  then show ?thesis
    using app_of_CallNext(2) [OF assms(2,1)]
          post_api_approve_p0_resolved [of req pid rt tr1 s d usr] assms(3-9)
    by simp
qed

lemma app_approve_null:
  assumes "req_endpoint req = POST_api_approve"
      and "middleware_of v rt req tr = (CallNext usr, tr1)"
      and "get_prop (req_body req) ''paymentId'' = Inr pid" and "truthy pid"
      and "v = Server_js \<or> is_string pid"
      and "upstream rt tr1
             (key_call rt ''POST''
                (base_url v rt @ ''/payments/'' @ js_to_string pid @ ''/approve'')
                (JObj [])) = Response s JNull"
      and "is_2xx s"
  shows "app_of v rt req tr =
         (res_status_json 500 (JObj [(''error'', JStr ''Payment approval failed'')]),
          tr1 @ [key_call rt ''POST''
                   (base_url v rt @ ''/payments/'' @ js_to_string pid @ ''/approve'')
                   (JObj [])])"
proof (cases v)
  case Server_js
  then show ?thesis
    using app_of_CallNext(2) [OF assms(2,1)]
          post_api_approve_null [of req pid rt tr1 s usr] assms(3-7)
    by simp
next
  case Part_000
  then show ?thesis
    using app_of_CallNext(2) [OF assms(2,1)]
          post_api_approve_p0_null [of req pid rt tr1 s usr] assms(3-7)
    by simp
qed

subsection \<open>The scenario, evaluated\<close>



lemma scenario_approve_p1:
  "upstream scenario tr
     (key_call scenario ''POST'' ''https://api.minepi.com/v2/payments/p1/approve'' (JObj [])) =
   Response 200 (JObj [(''status'', JStr ''approved''), (''amount'', JNum ''3''),
                       (''memo'', JStr ''tea'')])"
  by (simp add: scenario_def scenario_upstream_def key_call_def)

lemma scenario_approve_pn:
  "upstream scenario tr
     (key_call scenario ''POST'' ''https://api.minepi.com/v2/payments/pn/approve'' (JObj [])) =
   Response 200 JNull"
  by (simp add: scenario_def scenario_upstream_def key_call_def)



lemma scenario_request_simps [simp]:
  "req_endpoint (scenario_request ep h b) = ep"
  "req_authorization (scenario_request ep h b) = h"
  "req_body (scenario_request ep h b) = b"
  by (simp_all add: scenario_request_def)



lemma scenario_approve_null:
  "app_of v scenario
     (scenario_request POST_api_approve (Some ''Bearer abc'') (JObj [(''paymentId'', JStr ''pn'')])) [] =
   (res_status_json 500 (JObj [(''error'', JStr ''Payment approval failed'')]),
    [me_call ''https://api.minepi.com/v2'' ''Bearer abc'',
     key_call scenario ''POST'' ''https://api.minepi.com/v2/payments/pn/approve'' (JObj [])])"
  using app_approve_null
          [where v = v and rt = scenario and tr = "[]" and s = 200 and pid = "JStr ''pn''"
             and req = "scenario_request POST_api_approve (Some ''Bearer abc'')
                          (JObj [(''paymentId'', JStr ''pn'')])",
           OF _ scenario_verified]
  by (simp add: scenario_base_url scenario_approve_pn is_2xx_200)

subsection \<open>Startup\<close>



subsection \<open>The two files compared\<close>









lemma no_bearer_401:
  assumes "no_bearer req"
      and "operation_route (req_endpoint req)
           \<or> v = Server_js \<and> req_endpoint req = GET_api_payment p"
  shows "app_of v rt req tr =
    (res_status_json 401 (JObj [(''error'', JStr ''Authorization header required'')]), tr)"
  using app_of_Responded [OF assms(2) middleware_no_bearer [OF assms(1)]] .

lemma scenario_payment_unauthenticated:
  "app scenario (scenario_request (GET_api_payment ''p1'') None (JObj [])) [] =
     (res_status_json 401 (JObj [(''error'', JStr ''Authorization header required'')]), [])"
  "app_p0 scenario (scenario_request (GET_api_payment ''p1'') None (JObj [])) [] = (not_found, [])"
  using no_bearer_401 [of "scenario_request (GET_api_payment ''p1'') None (JObj [])" Server_js
                          "''p1''" scenario "[]"]
  by (simp_all add: no_bearer_def app_p0_def)


subsection \<open>Statuses of a rejected identity check\<close>

lemma middleware_axios:
  assumes "req_authorization req = Some h" "startsWith h ''Bearer ''"
      and "axios_request rt (me_call (base_url v rt) h) tr = (Inl e, tr')"
  shows "middleware_of v rt req tr =
           (Responded (case v of Server_js \<Rightarrow> auth_catch rt e
                       | Part_000 \<Rightarrow> catch_p0 e ''Authentication failed''), tr')"
  using assms
  by (cases v)
     (simp_all add: authenticatePiRequest_def authenticatePiRequest_p0_def axios_get_def me_call_def)

lemma middleware_resolved:
  assumes "req_authorization req = Some h" "startsWith h ''Bearer ''"
      and "upstream rt tr (me_call (base_url v rt) h) = Response s d" "is_2xx s"
  shows "middleware_of v rt req tr =
           (case get_prop d ''uid'' of
              Inl e \<Rightarrow> Responded (case v of Server_js \<Rightarrow> auth_catch rt e
                                   | Part_000 \<Rightarrow> catch_p0 e ''Authentication failed'')
            | Inr u \<Rightarrow>
                if truthy u
                then CallNext \<lparr>uid = u, username = opt_prop d ''username'',
                               walletAddress = opt_prop d ''wallet_address''\<rparr>
                else Responded (res_status_json 401
                                  (JObj [(''error'', JStr ''Invalid authentication token'')])),
            tr @ [me_call (base_url v rt) h])"
proof -
  have a: "axios_get rt (base_url v rt @ ''/me'')
             (bearer_headers (js_index (js_split CHR '' '' h) 1)) tr =
           (Inr d, tr @ [me_call (base_url v rt) h])"
    using axios_request_resolves [OF assms(3,4)] by (simp add: axios_get_def me_call_def)
  show ?thesis
  proof (cases "get_prop d ''uid''")
    case (Inl e)
    then show ?thesis
      using assms(1,2) a
      by (cases v) (simp_all add: authenticatePiRequest_def authenticatePiRequest_p0_def)
  next
    case (Inr u)
    then show ?thesis
      using assms(1,2) a make_user_Inr [OF Inr]
      by (cases v) (simp_all add: authenticatePiRequest_def authenticatePiRequest_p0_def)
  qed
qed

text \<open>The statuses the middleware answers when the identity check does not verify the
  caller: 500 without an upstream response, the upstream's status when it answered with a
  status outside 200..299 (500 for the status 0), 401 when it answered 2xx with a body
  whose \<^verbatim>\<open>uid\<close> is falsy, and 500 when it answered 2xx with the body \<^verbatim>\<open>null\<close> (reading
  \<^verbatim>\<open>data.uid\<close> throws). In every case the identity check is the only upstream call.\<close>

lemma identity_check_rejections:
  assumes "req_authorization req = Some h" "startsWith h ''Bearer ''"
      and "operation_route (req_endpoint req)
           \<or> v = Server_js \<and> req_endpoint req = GET_api_payment p"
  shows "upstream rt tr (me_call (base_url v rt) h) = NoResponse m \<Longrightarrow>
           res_status (fst (app_of v rt req tr)) = 500
           \<and> snd (app_of v rt req tr) = tr @ [me_call (base_url v rt) h]"
    and "upstream rt tr (me_call (base_url v rt) h) = Response s d \<Longrightarrow> \<not> is_2xx s \<Longrightarrow>
           res_status (fst (app_of v rt req tr)) = (if s = 0 then 500 else s)
           \<and> snd (app_of v rt req tr) = tr @ [me_call (base_url v rt) h]"
    and "upstream rt tr (me_call (base_url v rt) h) = Response s d \<Longrightarrow> is_2xx s \<Longrightarrow>
         get_prop d ''uid'' = Inr u \<Longrightarrow> \<not> truthy u \<Longrightarrow>
           res_status (fst (app_of v rt req tr)) = 401
           \<and> snd (app_of v rt req tr) = tr @ [me_call (base_url v rt) h]"
    and "upstream rt tr (me_call (base_url v rt) h) = Response s d \<Longrightarrow> is_2xx s \<Longrightarrow>
         d = JNull \<or> d = JUndefined \<Longrightarrow>
           res_status (fst (app_of v rt req tr)) = 500
           \<and> snd (app_of v rt req tr) = tr @ [me_call (base_url v rt) h]"
proof -
  note p = assms(3)
  { assume u: "upstream rt tr (me_call (base_url v rt) h) = NoResponse m"
    show "res_status (fst (app_of v rt req tr)) = 500
           \<and> snd (app_of v rt req tr) = tr @ [me_call (base_url v rt) h]"
      using app_of_Responded [OF p middleware_axios [OF assms(1,2) axios_request_no_response [OF u]]]
      by (cases v) (simp_all add: error_status_def) }
  { assume u: "upstream rt tr (me_call (base_url v rt) h) = Response s d" "\<not> is_2xx s"
    show "res_status (fst (app_of v rt req tr)) = (if s = 0 then 500 else s)
           \<and> snd (app_of v rt req tr) = tr @ [me_call (base_url v rt) h]"
      using app_of_Responded [OF p middleware_axios [OF assms(1,2) axios_request_rejects [OF u]]]
      by (cases v) (simp_all add: error_status_def) }
  { assume u: "upstream rt tr (me_call (base_url v rt) h) = Response s d" "is_2xx s"
       and g: "get_prop d ''uid'' = Inr u" "\<not> truthy u"
    have "middleware_of v rt req tr =
            (Responded (res_status_json 401 (JObj [(''error'', JStr ''Invalid authentication token'')])),
             tr @ [me_call (base_url v rt) h])"
      using middleware_resolved [OF assms(1,2) u] g by simp
    from app_of_Responded [OF p this]
    show "res_status (fst (app_of v rt req tr)) = 401
           \<and> snd (app_of v rt req tr) = tr @ [me_call (base_url v rt) h]"
      by simp }
  { assume u: "upstream rt tr (me_call (base_url v rt) h) = Response s d" "is_2xx s"
       and g: "d = JNull \<or> d = JUndefined"
    obtain e where e: "get_prop d ''uid'' = Inl e" "err_response e = None"
      using get_prop_undefined_err [of d "''uid''"] g by blast
    have "middleware_of v rt req tr =
            (Responded (case v of Server_js \<Rightarrow> auth_catch rt e
                        | Part_000 \<Rightarrow> catch_p0 e ''Authentication failed''),
             tr @ [me_call (base_url v rt) h])"
      using middleware_resolved [OF assms(1,2) u] e by simp
    from app_of_Responded [OF p this]
    show "res_status (fst (app_of v rt req tr)) = 500
           \<and> snd (app_of v rt req tr) = tr @ [me_call (base_url v rt) h]"
      using e(2) by (cases v) (simp_all add: error_status_no_response) }
qed

lemma scenario_me_nul:
  "upstream scenario tr (me_call ''https://api.minepi.com/v2'' ''Bearer nul'') = Response 200 JNull"
  by (simp add: scenario_def scenario_upstream_def me_call_def js_index_def bearer_headers_def)

lemma scenario_not_development:
  "env_get (process_env scenario) ''NODE_ENV'' \<noteq> JStr ''development''"
  by (simp add: scenario_def scenario_env_def env_get_def)

subsection \<open>The balance body as it is sent\<close>





subsection \<open>The payment identifier as it is sent\<close>

lemma truthy_defined: "truthy v \<Longrightarrow> v \<noteq> JUndefined"
  by (cases v) simp_all

lemma payment_id_wire:
  assumes "truthy pid"
  shows "sent_field (res_json (JObj ((''status'', x) # (''payment_id'', pid) # rest)))
           ''payment_id'' = Some (to_wire pid)"
  using truthy_defined [OF assms]
  by (cases "x = JUndefined") (simp_all add: sent_field_def res_json_def)

lemma is_string_wire: "is_string v \<Longrightarrow> to_wire v = v"
  by (cases v) simp_all

lemma post_api_approve_200:
  assumes "post_api_approve rt req usr tr = (res, tr')" "res_status res = 200"
  shows "\<exists>pid. get_prop (req_body req) ''paymentId'' = Inr pid \<and> truthy pid
           \<and> sent_field res ''payment_id'' = Some (to_wire pid)"
  using assms
  by (auto simp: post_api_approve_def payment_id_wire split: sum.splits if_splits prod.splits
           dest!: approve_body_Inr)

lemma post_api_approve_p0_200:
  assumes "post_api_approve_p0 rt req usr tr = (res, tr')" "res_status res = 200"
  shows "\<exists>pid. get_prop (req_body req) ''paymentId'' = Inr pid \<and> truthy pid
           \<and> is_string pid \<and> sent_field res ''payment_id'' = Some (to_wire pid)"
  using assms
  by (auto simp: post_api_approve_p0_def axios_post_def payment_id_wire
           split: sum.splits if_splits prod.splits
           dest!: approve_body_p0_Inr body_Inl(4) get_prop_Inl(1) catch_p0_not_200_local
                  catch_p0_not_200_axios)

lemma app_approve_200:
  assumes "req_endpoint req = POST_api_approve"
      and "res_status (fst (app_of v rt req tr)) = 200"
  shows "\<exists>pid. get_prop (req_body req) ''paymentId'' = Inr pid \<and> truthy pid
           \<and> (v = Part_000 \<longrightarrow> is_string pid) \<and> sent_field (fst (app_of v rt req tr)) ''payment_id'' = Some (to_wire pid)"
proof -
  have p: "operation_route (req_endpoint req)
           \<or> v = Server_js \<and> req_endpoint req = GET_api_payment []"
    using assms(1) by (simp add: operation_route_def)
  obtain out tr1 where m: "middleware_of v rt req tr = (out, tr1)"
    by (cases "middleware_of v rt req tr")
  show ?thesis
  proof (cases out)
    case (Responded r)
    then have "fst (app_of v rt req tr) = r" "\<not> is_2xx (res_status r)"
      using app_of_Responded [OF p m [unfolded Responded]]
            middleware_Responded(2) [OF m [unfolded Responded]] by simp_all
    then show ?thesis using assms(2) by (simp add: is_2xx_def)
  next
    case (CallNext usr)
    note a = app_of_CallNext(2) [OF m [unfolded CallNext] assms(1)]
    show ?thesis
    proof (cases v)
      case Server_js
      then have "post_api_approve rt req usr tr1 =
                   (fst (app_of v rt req tr), snd (app_of v rt req tr))"
        using a by simp
      then show ?thesis
        using post_api_approve_200 [OF _ assms(2)] Server_js by blast
    next
      case Part_000
      then have "post_api_approve_p0 rt req usr tr1 =
                   (fst (app_of v rt req tr), snd (app_of v rt req tr))"
        using a by simp
      then show ?thesis
        using post_api_approve_p0_200 [OF _ assms(2)] by blast
    qed
  qed
qed

lemma app_approve_wire:
  assumes "req_endpoint req = POST_api_approve"
      and "middleware_of v rt req tr = (CallNext usr, tr1)"
      and "get_prop (req_body req) ''paymentId'' = Inr pid" and "truthy pid"
      and "v = Server_js \<or> is_string pid"
      and "upstream rt tr1
             (key_call rt ''POST''
                (base_url v rt @ ''/payments/'' @ js_to_string pid @ ''/approve'')
                (JObj [])) = Response s d"
      and "is_2xx s" and "d \<noteq> JUndefined" and "d \<noteq> JNull"
  shows "res_status (fst (app_of v rt req tr)) = 200"
    and "sent_field (fst (app_of v rt req tr)) ''payment_id'' = Some (to_wire pid)"
    and "snd (app_of v rt req tr) =
           tr1 @ [key_call rt ''POST''
                    (base_url v rt @ ''/payments/'' @ js_to_string pid @ ''/approve'')
                    (JObj [])]"
  using app_approve_resolved [OF assms] assms(4)
  by (simp_all add: payment_id_wire)

lemma scenario_approve_infinity:
  "app scenario
     (scenario_request POST_api_approve (Some ''Bearer abc'')
        (JObj [(''paymentId'', JNum ''Infinity'')])) [] =
   (\<lparr>res_status = 200,
     res_body = Some (JObj [(''status'', JStr ''approved''), (''payment_id'', JNull)])\<rparr>,
    [me_call ''https://api.minepi.com/v2'' ''Bearer abc'',
     key_call scenario ''POST'' ''https://api.minepi.com/v2/payments/Infinity/approve'' (JObj [])])"
proof -
  have u: "upstream scenario tr
     (key_call scenario ''POST'' ''https://api.minepi.com/v2/payments/Infinity/approve'' (JObj [])) =
     Response 200 (JObj [(''status'', JStr ''approved'')])" for tr
    by (simp add: scenario_def scenario_upstream_def key_call_def)
  show ?thesis
    using app_approve_resolved
            [where v = Server_js and rt = scenario and tr = "[]" and s = 200
               and pid = "JNum ''Infinity''"
               and req = "scenario_request POST_api_approve (Some ''Bearer abc'')
                            (JObj [(''paymentId'', JNum ''Infinity'')])"
               and d = "JObj [(''status'', JStr ''approved'')]",
             OF _ scenario_verified]
    by (simp add: scenario_base_url u is_2xx_200 res_json_def non_finite_def)
qed

subsection \<open>An identity check answered 304\<close>

lemma scenario_me_old:
  "upstream scenario tr (me_call ''https://api.minepi.com/v2'' ''Bearer old'') =
     Response 304 (JStr [])"
  by (simp add: scenario_def scenario_upstream_def me_call_def js_index_def bearer_headers_def)

lemma not_2xx_304: "\<not> is_2xx 304"
  by (simp add: is_2xx_def)

lemma res_status_json_304: "res_status_json 304 b = \<lparr>res_status = 304, res_body = None\<rparr>"
  by (simp add: res_status_json_def no_body_status_def)

subsection \<open>Where the two files answer differently\<close>










section \<open>The claims\<close>



text \<open>C2, as amended. A request whose \<^verbatim>\<open>Authorization\<close> header is absent or does not start
  with \<^verbatim>\<open>"Bearer "\<close> is answered 401 with the body
  \<^verbatim>\<open>{error: "Authorization header required"}\<close>, the list of upstream calls left as it was
  (neither the identity check nor an operation call is made), on balance, approve and
  complete in both files and on payment details in \<^verbatim>\<open>server.js\<close>. \<^verbatim>\<open>part_000\<close> registers no
  payment-details route: there the same request reaches the final handler and is answered
  404 with the body \<^verbatim>\<open>{error: "Endpoint not found"}\<close>, also without an upstream call. The
  claim as written (401 on all four routes) fails on that route of \<^verbatim>\<open>part_000\<close>.\<close>

theorem no_bearer_rejected_locally:
  assumes "no_bearer req"
  shows "(req_endpoint req = GET_api_balance \<or> req_endpoint req = POST_api_approve
            \<or> req_endpoint req = POST_api_complete \<longrightarrow>
          app rt req tr =
            (\<lparr>res_status = 401,
              res_body = Some (JObj [(''error'', JStr ''Authorization header required'')])\<rparr>, tr)
          \<and> app_p0 rt req tr =
            (\<lparr>res_status = 401,
              res_body = Some (JObj [(''error'', JStr ''Authorization header required'')])\<rparr>, tr))
       \<and> (req_endpoint req = GET_api_payment p \<longrightarrow>
          app rt req tr =
            (\<lparr>res_status = 401,
              res_body = Some (JObj [(''error'', JStr ''Authorization header required'')])\<rparr>, tr)
          \<and> app_p0 rt req tr =
            (\<lparr>res_status = 404,
              res_body = Some (JObj [(''error'', JStr ''Endpoint not found'')])\<rparr>, tr))"
proof -
  have r: "res_status_json 401 (JObj [(''error'', JStr ''Authorization header required'')]) =
    \<lparr>res_status = 401,
     res_body = Some (JObj [(''error'', JStr ''Authorization header required'')])\<rparr>"
    by (simp add: res_status_json_def no_body_status_def)
  have a: "app_of v rt req tr =
      (\<lparr>res_status = 401,
        res_body = Some (JObj [(''error'', JStr ''Authorization header required'')])\<rparr>, tr)"
    if "operation_route (req_endpoint req)
        \<or> v = Server_js \<and> req_endpoint req = GET_api_payment p" for v
    using app_of_Responded [OF that middleware_no_bearer [OF assms], of rt tr] r by simp
  have b: "app_p0 rt req tr =
      (\<lparr>res_status = 404, res_body = Some (JObj [(''error'', JStr ''Endpoint not found'')])\<rparr>, tr)"
    if "req_endpoint req = GET_api_payment p"
    using that by (simp add: app_p0_def not_found_def res_status_json_def no_body_status_def)
  show ?thesis
    using a [of Server_js] a [of Part_000] b by (auto simp add: operation_route_def)
qed

theorem no_bearer_rejected_locally_witness:
  "app scenario (scenario_request POST_api_approve (Some ''Basic abc'') (JObj [])) [] =
     (\<lparr>res_status = 401,
       res_body = Some (JObj [(''error'', JStr ''Authorization header required'')])\<rparr>, [])
   \<and> app_p0 scenario (scenario_request POST_api_approve (Some ''Basic abc'') (JObj [])) [] =
     (\<lparr>res_status = 401,
       res_body = Some (JObj [(''error'', JStr ''Authorization header required'')])\<rparr>, [])
   \<and> app scenario (scenario_request (GET_api_payment ''p1'') None (JObj [])) [] =
     (\<lparr>res_status = 401,
       res_body = Some (JObj [(''error'', JStr ''Authorization header required'')])\<rparr>, [])
   \<and> app_p0 scenario (scenario_request (GET_api_payment ''p1'') None (JObj [])) [] =
     (\<lparr>res_status = 404, res_body = Some (JObj [(''error'', JStr ''Endpoint not found'')])\<rparr>, [])"
proof -
  have 1: "no_bearer (scenario_request POST_api_approve (Some ''Basic abc'') (JObj []))"
    by (simp add: no_bearer_def scenario_request_def startsWith_def)
  have 2: "no_bearer (scenario_request (GET_api_payment ''p1'') None (JObj []))"
    by (simp add: no_bearer_def scenario_request_def)
  show ?thesis
    using no_bearer_rejected_locally [OF 1, of scenario "[]" "''p1''"]
          no_bearer_rejected_locally [OF 2, of scenario "[]" "''p1''"]
    by simp
qed

theorem no_bearer_payment_part_000_counterexample:
  "no_bearer (scenario_request (GET_api_payment ''p1'') None (JObj []))
   \<and> res_status (fst (app_p0 scenario
        (scenario_request (GET_api_payment ''p1'') None (JObj [])) [])) = 404
   \<and> res_status (fst (app scenario
        (scenario_request (GET_api_payment ''p1'') None (JObj [])) [])) = 401"
  using scenario_payment_unauthenticated
  by (simp add: no_bearer_def not_found_def res_status_json_def)

text \<open>C3. The claim: when the upstream identity check rejects the bearer token, the
  response status is the upstream's status when there is one and 500 otherwise, 401 when
  the check succeeds without returning a user identifier, and no operation call is made.
  The code does not do this for one upstream answer: a 2xx answer whose body is
  \<^verbatim>\<open>null\<close>. Reading \<^verbatim>\<open>data.uid\<close> then throws a \<^verbatim>\<open>TypeError\<close> before the
  \<^verbatim>\<open>if (!data.uid)\<close> test, the \<^verbatim>\<open>catch\<close> block finds no \<^verbatim>\<open>error.response\<close>, and the
  answer is 500 "Authentication failed" in both files, where the claim says 401. The
  theorem runs both files on that input. Every other case of the claim holds: see
  \<open>identity_check_rejections\<close>.\<close>

theorem null_identity_body_answered_500:
  "upstream scenario [] (me_call ''https://api.minepi.com/v2'' ''Bearer nul'') = Response 200 JNull
   \<and> app scenario (scenario_request GET_api_balance (Some ''Bearer nul'') (JObj [])) [] =
     (res_status_json 500 (JObj [(''error'', JStr ''Authentication failed'')]),
      [me_call ''https://api.minepi.com/v2'' ''Bearer nul''])
   \<and> app_p0 scenario (scenario_request GET_api_balance (Some ''Bearer nul'') (JObj [])) [] =
     (res_status_json 500 (JObj [(''error'', JStr ''Authentication failed'')]),
      [me_call ''https://api.minepi.com/v2'' ''Bearer nul''])"
proof -
  let ?req = "scenario_request GET_api_balance (Some ''Bearer nul'') (JObj [])"
  have a: "req_authorization ?req = Some ''Bearer nul''" "startsWith ''Bearer nul'' ''Bearer ''"
    by (simp_all add: scenario_request_def startsWith_def)
  have p: "operation_route (req_endpoint ?req)
           \<or> v = Server_js \<and> req_endpoint ?req = GET_api_payment p" for v p
    by (simp add: operation_route_def)
  have u: "upstream scenario [] (me_call (base_url v scenario) ''Bearer nul'') = Response 200 JNull" for v
    by (simp add: scenario_base_url scenario_me_nul)
  let ?e = "JsError (''Cannot read properties of null (reading '' @ [CHR 0x27] @ ''uid'' @ [CHR 0x27] @ '')'') None"
  have m1: "middleware_of Server_js scenario ?req [] =
             (Responded (auth_catch scenario ?e),
              [me_call ''https://api.minepi.com/v2'' ''Bearer nul''])"
    using middleware_resolved [OF a u [of Server_js] is_2xx_200] by (simp add: scenario_base_url)
  have m2: "middleware_of Part_000 scenario ?req [] =
             (Responded (catch_p0 ?e ''Authentication failed''),
              [me_call ''https://api.minepi.com/v2'' ''Bearer nul''])"
    using middleware_resolved [OF a u [of Part_000] is_2xx_200] by (simp add: scenario_base_url)
  have 1: "app scenario ?req [] =
     (res_status_json 500 (JObj [(''error'', JStr ''Authentication failed'')]),
      [me_call ''https://api.minepi.com/v2'' ''Bearer nul''])"
    using app_of_Responded [OF p [of Server_js] m1]
    by (simp add: auth_catch_def error_status_def scenario_not_development)
  have 2: "app_p0 scenario ?req [] =
     (res_status_json 500 (JObj [(''error'', JStr ''Authentication failed'')]),
      [me_call ''https://api.minepi.com/v2'' ''Bearer nul''])"
    using app_of_Responded [OF p [of Part_000] m2]
    by (simp add: catch_p0_def error_status_def error_text_def js_or_def)
  from 1 2 scenario_me_nul [of "[]"] show ?thesis by simp
qed

text \<open>C4. An authenticated approve request whose body has no (or a falsy) \<^verbatim>\<open>paymentId\<close>,
  and an authenticated complete request whose body has no (or a falsy) \<^verbatim>\<open>paymentId\<close> or
  \<^verbatim>\<open>txid\<close>, is answered exactly 400 with an invalid-input message, and the only upstream
  call made for it is the identity check: the payments API is never called. The message
  is "Missing payment ID" (\<^verbatim>\<open>server.js\<close>) or "Invalid payment ID" (\<^verbatim>\<open>part_000\<close>) for
  approve and "Missing payment ID or transaction ID" for complete. The body is what
  \<^verbatim>\<open>express.json()\<close> delivers, an object or an array; reading a field of \<^verbatim>\<open>null\<close> or
  \<^verbatim>\<open>undefined\<close> would throw instead, which \<open>field_missing\<close> excludes.\<close>

theorem missing_fields_rejected_before_upstream:
  assumes "middleware_of v rt req tr = (CallNext usr, tr')"
      and "req_endpoint req = POST_api_approve \<and> field_missing (req_body req) ''paymentId''
           \<or> req_endpoint req = POST_api_complete
             \<and> (field_missing (req_body req) ''paymentId'' \<or> field_missing (req_body req) ''txid'')"
  shows "\<exists>h. req_authorization req = Some h
           \<and> app_of v rt req tr =
               (res_status_json 400
                  (JObj [(''error'',
                          JStr (if req_endpoint req = POST_api_complete
                                then ''Missing payment ID or transaction ID''
                                else case v of Server_js \<Rightarrow> ''Missing payment ID''
                                     | Part_000 \<Rightarrow> ''Invalid payment ID''))]),
                tr @ [me_call (base_url v rt) h])"
proof -
  obtain h where h: "req_authorization req = Some h" "tr' = tr @ [me_call (base_url v rt) h]"
    using middleware_CallNext [OF assms(1)] by blast
  have "app_of v rt req tr =
               (res_status_json 400
                  (JObj [(''error'',
                          JStr (if req_endpoint req = POST_api_complete
                                then ''Missing payment ID or transaction ID''
                                else case v of Server_js \<Rightarrow> ''Missing payment ID''
                                     | Part_000 \<Rightarrow> ''Invalid payment ID''))]),
                tr')"
    using assms(2)
  proof
    assume a: "req_endpoint req = POST_api_approve \<and> field_missing (req_body req) ''paymentId''"
    then show ?thesis
      using app_of_CallNext(2) [OF assms(1)] approve_missing [of req rt usr tr']
      by (cases v) simp_all
  next
    assume c: "req_endpoint req = POST_api_complete
             \<and> (field_missing (req_body req) ''paymentId'' \<or> field_missing (req_body req) ''txid'')"
    then show ?thesis
      using app_of_CallNext(3) [OF assms(1)] complete_missing [of req rt usr tr']
      by (cases v) simp_all
  qed
  with h show ?thesis by blast
qed

theorem missing_fields_rejected_before_upstream_witness:
  "app scenario (scenario_request POST_api_complete (Some ''Bearer abc'') (JObj [(''paymentId'', JStr ''p1'')])) [] =
     (res_status_json 400 (JObj [(''error'', JStr ''Missing payment ID or transaction ID'')]),
      [me_call ''https://api.minepi.com/v2'' ''Bearer abc''])
   \<and> app_p0 scenario (scenario_request POST_api_approve (Some ''Bearer abc'') (JObj [])) [] =
     (res_status_json 400 (JObj [(''error'', JStr ''Invalid payment ID'')]),
      [me_call ''https://api.minepi.com/v2'' ''Bearer abc''])"
proof -
  let ?r1 = "scenario_request POST_api_complete (Some ''Bearer abc'') (JObj [(''paymentId'', JStr ''p1'')])"
  let ?r2 = "scenario_request POST_api_approve (Some ''Bearer abc'') (JObj [])"
  have 1: "req_endpoint ?r1 = POST_api_approve \<and> field_missing (req_body ?r1) ''paymentId''
           \<or> req_endpoint ?r1 = POST_api_complete
             \<and> (field_missing (req_body ?r1) ''paymentId'' \<or> field_missing (req_body ?r1) ''txid'')"
    by (simp add: scenario_request_def field_missing_def)
  have 2: "req_endpoint ?r2 = POST_api_approve \<and> field_missing (req_body ?r2) ''paymentId''
           \<or> req_endpoint ?r2 = POST_api_complete
             \<and> (field_missing (req_body ?r2) ''paymentId'' \<or> field_missing (req_body ?r2) ''txid'')"
    by (simp add: scenario_request_def field_missing_def)
  show ?thesis
    using missing_fields_rejected_before_upstream [OF scenario_verified [of Server_js _ _ "[]"] 1]
          missing_fields_rejected_before_upstream [OF scenario_verified [of Part_000 _ _ "[]"] 2]
    by (simp add: scenario_request_def scenario_base_url)
qed




lemma startup_fails_for_other_reasons:
  "startup \<lparr>host_env = scenario_env, host_listen = (\<lambda>port. Some ''EADDRINUSE''),
            host_pi_config = Inl ''MODULE_NOT_FOUND''\<rparr> = Inl ''EADDRINUSE''"
  "startup_p0 \<lparr>host_env = scenario_env, host_listen = (\<lambda>port. None),
               host_pi_config = Inl ''MODULE_NOT_FOUND''\<rparr> = Inl ''MODULE_NOT_FOUND''"
  by (simp_all add: startup_def startup_p0_def requiredEnvVars_def env_get_def scenario_env_def)




text \<open>C7, as amended. Round trip of the payment identifier. An authenticated approve
  request whose \<^verbatim>\<open>paymentId\<close> is accepted (truthy; in \<^verbatim>\<open>part_000\<close> also a string) and whose
  upstream approval call is answered 2xx with a body other than \<^verbatim>\<open>null\<close> is answered 200,
  after that one operation call; and every approve request answered 200 has a truthy
  \<^verbatim>\<open>paymentId\<close>. In both cases the response has a \<^verbatim>\<open>payment_id\<close> field and its value is the
  \<^verbatim>\<open>paymentId\<close> of the request body as JSON serialises it: the same value whenever it is
  a string (always, in \<^verbatim>\<open>part_000\<close>) and, in general, unless it holds a number that is not
  finite or an \<^verbatim>\<open>undefined\<close>. \<^verbatim>\<open>server.js\<close> accepts a \<^verbatim>\<open>paymentId\<close> that is not a string: the
  number \<^verbatim>\<open>1e400\<close> is parsed as \<^verbatim>\<open>Infinity\<close> and sent back as \<^verbatim>\<open>null\<close>. The
  claim as written (the round trip whenever the upstream approval call succeeds) fails
  when the upstream answers the approval with 200 and the body \<^verbatim>\<open>null\<close>: both files then
  answer 500 without a \<^verbatim>\<open>payment_id\<close>; and it fails in \<^verbatim>\<open>server.js\<close> for the \<^verbatim>\<open>paymentId\<close>
  \<^verbatim>\<open>Infinity\<close>, answered 200 with \<^verbatim>\<open>payment_id: null\<close>.\<close>

theorem approve_round_trip:
  assumes "req_endpoint req = POST_api_approve"
  shows
    "(middleware_of v rt req tr = (CallNext usr, tr1)
      \<and> get_prop (req_body req) ''paymentId'' = Inr pid \<and> truthy pid
      \<and> (v = Server_js \<or> is_string pid)
      \<and> upstream rt tr1
          (key_call rt ''POST''
             (base_url v rt @ ''/payments/'' @ js_to_string pid @ ''/approve'')
             (JObj [])) = Response s d
      \<and> is_2xx s \<and> d \<noteq> JUndefined \<and> d \<noteq> JNull \<longrightarrow>
        res_status (fst (app_of v rt req tr)) = 200
      \<and> sent_field (fst (app_of v rt req tr)) ''payment_id'' = Some (to_wire pid)
      \<and> (json_text pid \<longrightarrow>
           sent_field (fst (app_of v rt req tr)) ''payment_id'' = Some pid)
      \<and> snd (app_of v rt req tr) =
          tr1 @ [key_call rt ''POST''
                   (base_url v rt @ ''/payments/'' @ js_to_string pid @ ''/approve'')
                   (JObj [])])
   \<and> (res_status (fst (app_of v rt req tr)) = 200 \<longrightarrow>
       (\<exists>pid. get_prop (req_body req) ''paymentId'' = Inr pid \<and> truthy pid
          \<and> (v = Part_000 \<longrightarrow> is_string pid)
          \<and> sent_field (fst (app_of v rt req tr)) ''payment_id'' = Some (to_wire pid)
          \<and> (json_text pid \<longrightarrow>
               sent_field (fst (app_of v rt req tr)) ''payment_id'' = Some pid)))"
proof -
  have 1: "res_status (fst (app_of v rt req tr)) = 200
      \<and> sent_field (fst (app_of v rt req tr)) ''payment_id'' = Some (to_wire pid)
      \<and> (json_text pid \<longrightarrow>
           sent_field (fst (app_of v rt req tr)) ''payment_id'' = Some pid)
      \<and> snd (app_of v rt req tr) =
          tr1 @ [key_call rt ''POST''
                   (base_url v rt @ ''/payments/'' @ js_to_string pid @ ''/approve'')
                   (JObj [])]"
    if "middleware_of v rt req tr = (CallNext usr, tr1)"
       "get_prop (req_body req) ''paymentId'' = Inr pid" "truthy pid"
       "v = Server_js \<or> is_string pid"
       "upstream rt tr1
          (key_call rt ''POST''
             (base_url v rt @ ''/payments/'' @ js_to_string pid @ ''/approve'')
             (JObj [])) = Response s d"
       "is_2xx s" "d \<noteq> JUndefined" "d \<noteq> JNull"
    using app_approve_wire [OF assms that] by (simp add: to_wire_json_text)
  have 2: "\<exists>pid. get_prop (req_body req) ''paymentId'' = Inr pid \<and> truthy pid
          \<and> (v = Part_000 \<longrightarrow> is_string pid)
          \<and> sent_field (fst (app_of v rt req tr)) ''payment_id'' = Some (to_wire pid)
          \<and> (json_text pid \<longrightarrow>
               sent_field (fst (app_of v rt req tr)) ''payment_id'' = Some pid)"
    if s: "res_status (fst (app_of v rt req tr)) = 200"
    using app_approve_200 [OF assms s] by (auto simp: to_wire_json_text)
  show ?thesis using 1 2 by blast
qed

theorem approve_round_trip_witness:
  "res_status (fst (app scenario
      (scenario_request POST_api_approve (Some ''Bearer abc'')
         (JObj [(''paymentId'', JStr ''p1'')])) [])) = 200
   \<and> sent_field (fst (app scenario
      (scenario_request POST_api_approve (Some ''Bearer abc'')
         (JObj [(''paymentId'', JStr ''p1'')])) [])) ''payment_id'' = Some (JStr ''p1'')
   \<and> res_status (fst (app_p0 scenario
      (scenario_request POST_api_approve (Some ''Bearer abc'')
         (JObj [(''paymentId'', JStr ''p1'')])) [])) = 200
   \<and> sent_field (fst (app_p0 scenario
      (scenario_request POST_api_approve (Some ''Bearer abc'')
         (JObj [(''paymentId'', JStr ''p1'')])) [])) ''payment_id'' = Some (JStr ''p1'')
   \<and> snd (app_p0 scenario
      (scenario_request POST_api_approve (Some ''Bearer abc'')
         (JObj [(''paymentId'', JStr ''p1'')])) []) =
       [me_call ''https://api.minepi.com/v2'' ''Bearer abc'',
        key_call scenario ''POST'' ''https://api.minepi.com/v2/payments/p1/approve'' (JObj [])]"
proof -
  let ?req = "scenario_request POST_api_approve (Some ''Bearer abc'')
                (JObj [(''paymentId'', JStr ''p1'')])"
  let ?usr = "\<lparr>uid = JStr ''u1'', username = JStr ''alice'', walletAddress = JUndefined\<rparr>"
  let ?tr1 = "[me_call ''https://api.minepi.com/v2'' ''Bearer abc'']"
  let ?d = "JObj [(''status'', JStr ''approved''), (''amount'', JNum ''3''), (''memo'', JStr ''tea'')]"
  have e: "req_endpoint ?req = POST_api_approve" by simp
  have m: "middleware_of v scenario ?req [] = (CallNext ?usr, ?tr1)" for v
    using scenario_verified [of v POST_api_approve "JObj [(''paymentId'', JStr ''p1'')]" "[]"]
    by simp
  have u: "upstream scenario ?tr1
             (key_call scenario ''POST''
                (base_url v scenario @ ''/payments/'' @ js_to_string (JStr ''p1'') @ ''/approve'')
                (JObj [])) = Response 200 ?d" for v
    by (simp add: scenario_base_url scenario_approve_p1)
  have s: "res_status (fst (app scenario ?req [])) = 200
         \<and> sent_field (fst (app scenario ?req [])) ''payment_id'' = Some (JStr ''p1'')"
    using approve_round_trip [OF e, of Server_js scenario "[]" ?usr ?tr1 "JStr ''p1''" 200 ?d]
          m [of Server_js] u [of Server_js]
    by (simp add: is_2xx_200 scenario_base_url)
  have p: "res_status (fst (app_p0 scenario ?req [])) = 200
         \<and> sent_field (fst (app_p0 scenario ?req [])) ''payment_id'' = Some (JStr ''p1'')
         \<and> snd (app_p0 scenario ?req []) =
             [me_call ''https://api.minepi.com/v2'' ''Bearer abc'',
              key_call scenario ''POST'' ''https://api.minepi.com/v2/payments/p1/approve''
                (JObj [])]"
    using approve_round_trip [OF e, of Part_000 scenario "[]" ?usr ?tr1 "JStr ''p1''" 200 ?d]
          m [of Part_000] u [of Part_000]
    by (simp add: is_2xx_200 scenario_base_url)
  show ?thesis using s p by simp
qed

theorem approve_null_body_counterexample:
  "upstream scenario [me_call ''https://api.minepi.com/v2'' ''Bearer abc'']
     (key_call scenario ''POST'' ''https://api.minepi.com/v2/payments/pn/approve'' (JObj [])) =
     Response 200 JNull
   \<and> app scenario
       (scenario_request POST_api_approve (Some ''Bearer abc'')
          (JObj [(''paymentId'', JStr ''pn'')])) [] =
     (\<lparr>res_status = 500, res_body = Some (JObj [(''error'', JStr ''Payment approval failed'')])\<rparr>,
      [me_call ''https://api.minepi.com/v2'' ''Bearer abc'',
       key_call scenario ''POST'' ''https://api.minepi.com/v2/payments/pn/approve'' (JObj [])])
   \<and> app_p0 scenario
       (scenario_request POST_api_approve (Some ''Bearer abc'')
          (JObj [(''paymentId'', JStr ''pn'')])) [] =
     (\<lparr>res_status = 500, res_body = Some (JObj [(''error'', JStr ''Payment approval failed'')])\<rparr>,
      [me_call ''https://api.minepi.com/v2'' ''Bearer abc'',
       key_call scenario ''POST'' ''https://api.minepi.com/v2/payments/pn/approve'' (JObj [])])
   \<and> sent_field
        \<lparr>res_status = 500, res_body = Some (JObj [(''error'', JStr ''Payment approval failed'')])\<rparr>
        ''payment_id'' = None
   \<and> app scenario
       (scenario_request POST_api_approve (Some ''Bearer abc'')
          (JObj [(''paymentId'', JNum ''Infinity'')])) [] =
     (\<lparr>res_status = 200,
       res_body = Some (JObj [(''status'', JStr ''approved''), (''payment_id'', JNull)])\<rparr>,
      [me_call ''https://api.minepi.com/v2'' ''Bearer abc'',
       key_call scenario ''POST'' ''https://api.minepi.com/v2/payments/Infinity/approve''
         (JObj [])])"
  using scenario_approve_null [of Server_js] scenario_approve_null [of Part_000]
        scenario_approve_infinity
  by (simp add: scenario_approve_pn res_status_json_def no_body_status_def sent_field_def)

text \<open>C8. The claim: on every route and for every outcome, the body of a failure response
  is JSON with an \<^verbatim>\<open>error\<close> field, and the body of a success response has none. The code
  does not do this when the upstream answers the identity check with 304: both
  middlewares pass the status through, \<^verbatim>\<open>res.status(304).json({error: ...})\<close>, and Express
  sends no body with a 304, so the caller receives a failure response without an \<^verbatim>\<open>error\<close>
  field. The theorem runs both files on that input. Every answer of either file with
  another status is as the claim says: see \<open>answers_are_well_shaped\<close>.\<close>

theorem not_modified_answered_without_error_body:
  "upstream scenario [] (me_call ''https://api.minepi.com/v2'' ''Bearer old'') =
     Response 304 (JStr [])
   \<and> app scenario (scenario_request GET_api_balance (Some ''Bearer old'') (JObj [])) [] =
     (\<lparr>res_status = 304, res_body = None\<rparr>,
      [me_call ''https://api.minepi.com/v2'' ''Bearer old''])
   \<and> app_p0 scenario (scenario_request GET_api_balance (Some ''Bearer old'') (JObj [])) [] =
     (\<lparr>res_status = 304, res_body = None\<rparr>,
      [me_call ''https://api.minepi.com/v2'' ''Bearer old''])
   \<and> sent_field \<lparr>res_status = 304, res_body = None\<rparr> ''error'' = None"
proof -
  let ?req = "scenario_request GET_api_balance (Some ''Bearer old'') (JObj [])"
  have a: "req_authorization ?req = Some ''Bearer old''" "startsWith ''Bearer old'' ''Bearer ''"
    by (simp_all add: startsWith_def)
  have p: "operation_route (req_endpoint ?req)
           \<or> v = Server_js \<and> req_endpoint ?req = GET_api_payment p" for v p
    by (simp add: operation_route_def)
  have u: "upstream scenario [] (me_call (base_url v scenario) ''Bearer old'') =
             Response 304 (JStr [])" for v
    by (simp add: scenario_base_url scenario_me_old)
  let ?e = "JsError (''Request failed with status code '' @ show_nat 304) (Some (304, JStr []))"
  have m: "middleware_of v scenario ?req [] =
             (Responded (case v of Server_js \<Rightarrow> auth_catch scenario ?e
                         | Part_000 \<Rightarrow> catch_p0 ?e ''Authentication failed''),
              [me_call ''https://api.minepi.com/v2'' ''Bearer old''])" for v
    using middleware_axios [OF a axios_request_rejects [OF u [of v] not_2xx_304]]
    by (simp add: scenario_base_url)
  have 1: "app scenario ?req [] =
     (\<lparr>res_status = 304, res_body = None\<rparr>, [me_call ''https://api.minepi.com/v2'' ''Bearer old''])"
    using app_of_Responded [OF p [of Server_js] m [of Server_js]]
    by (simp add: auth_catch_def error_status_def res_status_json_304)
  have 2: "app_p0 scenario ?req [] =
     (\<lparr>res_status = 304, res_body = None\<rparr>, [me_call ''https://api.minepi.com/v2'' ''Bearer old''])"
    using app_of_Responded [OF p [of Part_000] m [of Part_000]]
    by (simp add: catch_p0_def error_status_def res_status_json_304)
  from 1 2 scenario_me_old [of "[]"] show ?thesis by (simp add: sent_field_def)
qed

text \<open>C9. The middleware takes as the token the piece of the \<^verbatim>\<open>Authorization\<close> header
  between its first and second space. For every header that begins with \<^verbatim>\<open>"Bearer "\<close>,
  whatever follows (nothing, or text with further spaces), the scheme check passes and
  the middleware sends the identity check \<^verbatim>\<open>GET {base}/me\<close>, its \<^verbatim>\<open>Authorization\<close> header
  being \<^verbatim>\<open>"Bearer "\<close> followed by that piece (possibly empty or cut at the next space);
  the request is not rejected locally. This holds in both source files.\<close>

theorem bearer_prefix_reaches_upstream:
  "snd (middleware_of v rt (req\<lparr>req_authorization := Some (''Bearer '' @ rest)\<rparr>) tr) =
     tr @ [\<lparr>call_verb = ''GET'', call_url = base_url v rt @ ''/me'',
             call_headers =
               [(''Authorization'', ''Bearer '' @ takeWhile (\<lambda>c. c \<noteq> CHR '' '') rest),
                (''Content-Type'', ''application/json'')],
             call_data = JUndefined\<rparr>]"
proof -
  have "snd (middleware_of v rt (req\<lparr>req_authorization := Some (''Bearer '' @ rest)\<rparr>) tr) =
          tr @ [me_call (base_url v rt) (''Bearer '' @ rest)]"
    by (rule middleware_calls) (simp_all add: startsWith_def)
  then show ?thesis
    by (simp only: me_call_def bearer_token bearer_headers_def js_to_string.simps)
qed

theorem bearer_prefix_reaches_upstream_witness:
  "snd (authenticatePiRequest scenario (scenario_request GET_api_balance (Some ''Bearer '') JUndefined) []) =
     [\<lparr>call_verb = ''GET'', call_url = ''https://api.minepi.com/v2/me'',
       call_headers = [(''Authorization'', ''Bearer ''), (''Content-Type'', ''application/json'')],
       call_data = JUndefined\<rparr>]
   \<and> snd (authenticatePiRequest_p0 scenario (scenario_request GET_api_balance (Some ''Bearer a b'') JUndefined) []) =
     [\<lparr>call_verb = ''GET'', call_url = ''https://api.minepi.com/v2/me'',
       call_headers = [(''Authorization'', ''Bearer a''), (''Content-Type'', ''application/json'')],
       call_data = JUndefined\<rparr>]"
  using bearer_prefix_reaches_upstream
          [where v = Server_js and rt = scenario and rest = "[]" and tr = "[]"
             and req = "scenario_request GET_api_balance None JUndefined"]
        bearer_prefix_reaches_upstream
          [where v = Part_000 and rt = scenario and rest = "''a b''" and tr = "[]"
             and req = "scenario_request GET_api_balance None JUndefined"]
  by (simp add: scenario_request_def scenario_def PI_API_URL_def env_get_def scenario_env_def)




end
